theory Spec2Isabelle
  imports Complex_Main
begin

section \<open>The five-dimensional parameter space\<close>

text \<open>
  The Python module \<^verbatim>\<open>watercolor_dissolution_mcp.py\<close> works on dictionaries with the
  five keys of \<^verbatim>\<open>PARAMETER_NAMES\<close>. A key is a constructor of \<open>axis\<close>, a state
  dictionary is a record with one field per key, \<open>coord p k\<close> is \<^verbatim>\<open>p[k]\<close> and
  \<open>mk_point f\<close> is the comprehension \<^verbatim>\<open>{k: f(k) for k in PARAMETER_NAMES}\<close>.

  Python floats are read as the real numbers they denote. The section on binary64
  arithmetic repeats the interpolation with every operation rounded as the machine
  rounds it, for the one property that depends on the rounding. Python's leading underscore of a private name
  is dropped (\<^verbatim>\<open>_lerp_state\<close> is \<open>lerp_state\<close>).
\<close>

datatype axis =
  DissolutionRate | EdgeCoherence | SubstrateVisibility | PigmentHydrology | AnchorDensity

definition PARAMETER_NAMES :: "axis list" where
  "PARAMETER_NAMES =
     [DissolutionRate, EdgeCoherence, SubstrateVisibility, PigmentHydrology, AnchorDensity]"

fun axis_name :: "axis \<Rightarrow> string" where
  "axis_name DissolutionRate = ''dissolution_rate''"
| "axis_name EdgeCoherence = ''edge_coherence''"
| "axis_name SubstrateVisibility = ''substrate_visibility''"
| "axis_name PigmentHydrology = ''pigment_hydrology''"
| "axis_name AnchorDensity = ''anchor_density''"

record point =
  dissolution_rate :: real
  edge_coherence :: real
  substrate_visibility :: real
  pigment_hydrology :: real
  anchor_density :: real

fun coord :: "point \<Rightarrow> axis \<Rightarrow> real" where
  "coord p DissolutionRate = dissolution_rate p"
| "coord p EdgeCoherence = edge_coherence p"
| "coord p SubstrateVisibility = substrate_visibility p"
| "coord p PigmentHydrology = pigment_hydrology p"
| "coord p AnchorDensity = anchor_density p"

definition mk_point :: "(axis \<Rightarrow> real) \<Rightarrow> point" where
  "mk_point f =
     \<lparr>dissolution_rate = f DissolutionRate, edge_coherence = f EdgeCoherence,
      substrate_visibility = f SubstrateVisibility, pigment_hydrology = f PigmentHydrology,
      anchor_density = f AnchorDensity\<rparr>"

section \<open>Taxonomy data\<close>

text \<open>
  Of each visual type the display name and the center are kept; the description, the
  keywords, the optical properties and the color associations are text that no
  computation below reads. The association lists keep the declaration order of the
  Python dictionaries, which is their iteration order.

  \<^verbatim>\<open>CANONICAL_STATES\<close> and \<^verbatim>\<open>ATTRACTOR_PRESETS\<close> refer to
  \<^verbatim>\<open>VISUAL_TYPES[...]["center"]\<close>; the six centers are therefore named once.
\<close>

definition editorial_wash_center :: point where
  "editorial_wash_center =
     \<lparr>dissolution_rate = 0.15, edge_coherence = 0.85, substrate_visibility = 0.10,
      pigment_hydrology = 0.20, anchor_density = 0.90\<rparr>"

definition contested_boundary_center :: point where
  "contested_boundary_center =
     \<lparr>dissolution_rate = 0.50, edge_coherence = 0.50, substrate_visibility = 0.35,
      pigment_hydrology = 0.50, anchor_density = 0.50\<rparr>"

definition full_dissolution_center :: point where
  "full_dissolution_center =
     \<lparr>dissolution_rate = 0.85, edge_coherence = 0.15, substrate_visibility = 0.75,
      pigment_hydrology = 0.85, anchor_density = 0.10\<rparr>"

definition ghost_impression_center :: point where
  "ghost_impression_center =
     \<lparr>dissolution_rate = 0.65, edge_coherence = 0.75, substrate_visibility = 0.50,
      pigment_hydrology = 0.10, anchor_density = 0.20\<rparr>"

definition substrate_emergence_center :: point where
  "substrate_emergence_center =
     \<lparr>dissolution_rate = 0.70, edge_coherence = 0.30, substrate_visibility = 0.85,
      pigment_hydrology = 0.40, anchor_density = 0.30\<rparr>"

definition chromatic_flood_center :: point where
  "chromatic_flood_center =
     \<lparr>dissolution_rate = 0.90, edge_coherence = 0.20, substrate_visibility = 0.50,
      pigment_hydrology = 0.95, anchor_density = 0.15\<rparr>"

record visual_type =
  vt_name :: string
  center :: point

definition VISUAL_TYPES :: "(string \<times> visual_type) list" where
  "VISUAL_TYPES =
     [(''editorial_wash'', \<lparr>vt_name = ''Editorial Wash'', center = editorial_wash_center\<rparr>),
      (''contested_boundary'',
         \<lparr>vt_name = ''Contested Boundary'', center = contested_boundary_center\<rparr>),
      (''full_dissolution'',
         \<lparr>vt_name = ''Full Dissolution'', center = full_dissolution_center\<rparr>),
      (''ghost_impression'',
         \<lparr>vt_name = ''Ghost Impression'', center = ghost_impression_center\<rparr>),
      (''substrate_emergence'',
         \<lparr>vt_name = ''Substrate Emergence'', center = substrate_emergence_center\<rparr>),
      (''chromatic_flood'',
         \<lparr>vt_name = ''Chromatic Flood'', center = chromatic_flood_center\<rparr>)]"

record canonical_state =
  cs_name :: string
  coordinates :: point
  source :: string

definition light_wash_coordinates :: point where
  "light_wash_coordinates =
     \<lparr>dissolution_rate = 0.27, edge_coherence = 0.73, substrate_visibility = 0.18,
      pigment_hydrology = 0.30, anchor_density = 0.77\<rparr>"

definition advancing_dissolution_coordinates :: point where
  "advancing_dissolution_coordinates =
     \<lparr>dissolution_rate = 0.68, edge_coherence = 0.33, substrate_visibility = 0.55,
      pigment_hydrology = 0.68, anchor_density = 0.30\<rparr>"

definition saturating_flood_coordinates :: point where
  "saturating_flood_coordinates =
     \<lparr>dissolution_rate = 0.88, edge_coherence = 0.18, substrate_visibility = 0.63,
      pigment_hydrology = 0.90, anchor_density = 0.13\<rparr>"

definition restrained_study_coordinates :: point where
  "restrained_study_coordinates =
     \<lparr>dissolution_rate = 0.68, edge_coherence = 0.53, substrate_visibility = 0.68,
      pigment_hydrology = 0.25, anchor_density = 0.25\<rparr>"

definition CANONICAL_STATES :: "(string \<times> canonical_state) list" where
  "CANONICAL_STATES =
     [(''editorial_wash'',
         \<lparr>cs_name = ''Editorial Wash'', coordinates = editorial_wash_center,
          source = ''visual_type''\<rparr>),
      (''light_wash'',
         \<lparr>cs_name = ''Light Wash'', coordinates = light_wash_coordinates,
          source = ''interpolated''\<rparr>),
      (''contested_boundary'',
         \<lparr>cs_name = ''Contested Boundary'', coordinates = contested_boundary_center,
          source = ''visual_type''\<rparr>),
      (''ghost_impression'',
         \<lparr>cs_name = ''Ghost Impression'', coordinates = ghost_impression_center,
          source = ''visual_type''\<rparr>),
      (''advancing_dissolution'',
         \<lparr>cs_name = ''Advancing Dissolution'', coordinates = advancing_dissolution_coordinates,
          source = ''interpolated''\<rparr>),
      (''substrate_emergence'',
         \<lparr>cs_name = ''Substrate Emergence'', coordinates = substrate_emergence_center,
          source = ''visual_type''\<rparr>),
      (''full_dissolution'',
         \<lparr>cs_name = ''Full Dissolution'', coordinates = full_dissolution_center,
          source = ''visual_type''\<rparr>),
      (''saturating_flood'',
         \<lparr>cs_name = ''Saturating Flood'', coordinates = saturating_flood_coordinates,
          source = ''interpolated''\<rparr>),
      (''chromatic_flood'',
         \<lparr>cs_name = ''Chromatic Flood'', coordinates = chromatic_flood_center,
          source = ''visual_type''\<rparr>),
      (''restrained_study'',
         \<lparr>cs_name = ''Restrained Study'', coordinates = restrained_study_coordinates,
          source = ''interpolated''\<rparr>)]"

record attractor_preset =
  ap_name :: string
  ap_state :: point
  basin_radius :: real

definition ATTRACTOR_PRESETS :: "(string \<times> attractor_preset) list" where
  "ATTRACTOR_PRESETS =
     [(''editorial_discipline'',
         \<lparr>ap_name = ''Editorial Discipline'', ap_state = editorial_wash_center,
          basin_radius = 0.25\<rparr>),
      (''creative_tension'',
         \<lparr>ap_name = ''Creative Tension'', ap_state = contested_boundary_center,
          basin_radius = 0.20\<rparr>),
      (''painterly_freedom'',
         \<lparr>ap_name = ''Painterly Freedom'', ap_state = full_dissolution_center,
          basin_radius = 0.25\<rparr>),
      (''spectral_trace'',
         \<lparr>ap_name = ''Spectral Trace'', ap_state = ghost_impression_center,
          basin_radius = 0.20\<rparr>),
      (''breath_of_paper'',
         \<lparr>ap_name = ''Breath of Paper'', ap_state = substrate_emergence_center,
          basin_radius = 0.22\<rparr>),
      (''saturated_tide'',
         \<lparr>ap_name = ''Saturated Tide'', ap_state = chromatic_flood_center,
          basin_radius = 0.25\<rparr>),
      (''balanced_study'',
         \<lparr>ap_name = ''Balanced Study'', ap_state = restrained_study_coordinates,
          basin_radius = 0.18\<rparr>)]"

text \<open>Of \<^verbatim>\<open>SUBSTRATE_TYPES\<close> only the keys take part in a computation.\<close>

definition SUBSTRATE_TYPES :: "string list" where
  "SUBSTRATE_TYPES = [''hot_press'', ''cold_press'', ''rough'', ''yupo'', ''masa'']"

section \<open>Results, errors and rounding\<close>

text \<open>
  Every tool returns a JSON object. An error object has the key \<^verbatim>\<open>"error"\<close> and, in
  some tools only, the key \<^verbatim>\<open>"valid"\<close> with a list of identifiers: \<open>valid_ids\<close> is
  \<open>None\<close> where the object has no such key. An exception that leaves the tool is the
  third case of a response.
\<close>

datatype error_record = ErrorRecord (error_msg: string) (valid_ids: "string list option")

datatype py_exception = ZeroDivisionError | ValueError | KeyError

datatype 'a response = Success 'a | Failure error_record | Raises py_exception

text \<open>
  \<^verbatim>\<open>round(x, n)\<close> rounds to \<open>n\<close> decimals, a tie going to the even neighbour.
\<close>

definition round_half_even :: "real \<Rightarrow> int" where
  "round_half_even y =
     (let f = \<lfloor>y\<rfloor>; d = y - of_int f
      in if d < 1 / 2 then f else if 1 / 2 < d then f + 1
         else if even f then f else f + 1)"

definition py_round :: "real \<Rightarrow> nat \<Rightarrow> real" where
  "py_round x n = of_int (round_half_even (x * 10 ^ n)) / 10 ^ n"

definition round_state :: "point \<Rightarrow> point" where
  "round_state s = mk_point (\<lambda>k. py_round (coord s k) 4)"

section \<open>Utility functions\<close>

definition euclidean_distance :: "point \<Rightarrow> point \<Rightarrow> real" where
  "euclidean_distance a b = sqrt (\<Sum>k\<leftarrow>PARAMETER_NAMES. (coord a k - coord b k)\<^sup>2)"

definition lerp_state :: "point \<Rightarrow> point \<Rightarrow> real \<Rightarrow> point" where
  "lerp_state a b t = mk_point (\<lambda>k. coord a k + t * (coord b k - coord a k))"

text \<open>
  \<^verbatim>\<open>_nearest_visual_type\<close> starts from \<^verbatim>\<open>best_dist = float("inf")\<close>, which is
  \<open>None\<close> here: every distance is below it.
\<close>

definition nearest_step ::
  "point \<Rightarrow> string \<times> visual_type \<Rightarrow> string \<times> real option \<Rightarrow> string \<times> real option" where
  "nearest_step state entry best =
     (let d = euclidean_distance state (center (snd entry))
      in case snd best of
           None \<Rightarrow> (fst entry, Some d)
         | Some best_dist \<Rightarrow> if d < best_dist then (fst entry, Some d) else best)"

definition nearest_visual_type :: "point \<Rightarrow> string \<times> real option" where
  "nearest_visual_type state = fold (nearest_step state) VISUAL_TYPES ('''', None)"

section \<open>Parameter mapper\<close>

definition intensity_scales :: "(string \<times> real) list" where
  "intensity_scales = [(''subtle'', 0.6), (''moderate'', 1.0), (''dramatic'', 1.4)]"

definition emphasis_shifts :: "(string \<times> (axis \<times> real) list) list" where
  "emphasis_shifts =
     [(''dissolution'', [(DissolutionRate, 0.1), (AnchorDensity, - 0.1)]),
      (''edge'', [(EdgeCoherence, 0.15)]),
      (''substrate'', [(SubstrateVisibility, 0.15)]),
      (''hydrology'', [(PigmentHydrology, 0.15)]),
      (''balanced'', [])]"

text \<open>\<^verbatim>\<open>d.get(key, default)\<close> on an association list.\<close>

definition dict_get :: "('k \<times> 'v) list \<Rightarrow> 'k \<Rightarrow> 'v \<Rightarrow> 'v" where
  "dict_get d key dflt = (case map_of d key of None \<Rightarrow> dflt | Some v \<Rightarrow> v)"

definition mapped_state :: "point \<Rightarrow> string \<Rightarrow> string \<Rightarrow> point" where
  "mapped_state c intensity emphasis =
     (let intensity_scale = dict_get intensity_scales intensity 1.0;
          shifts = dict_get emphasis_shifts emphasis []
      in mk_point (\<lambda>k.
           let deviation = (coord c k - 0.5) * intensity_scale
           in max 0.0 (min 1.0 (0.5 + deviation + dict_get shifts k 0.0))))"

definition edge_modes_of :: "point \<Rightarrow> string list" where
  "edge_modes_of state =
     (if edge_coherence state > 0.6 then [''architectural_hard'', ''silhouette_cut''] else [])
     @ (if 0.3 \<le> edge_coherence state \<and> edge_coherence state \<le> 0.7
        then [''cauliflower_backrun'', ''granulation_boundary''] else [])
     @ (if edge_coherence state < 0.4 then [''feathered_bleed'', ''wet_lift''] else [])"

definition hydrology_of :: "point \<Rightarrow> string" where
  "hydrology_of state =
     (if pigment_hydrology state < 0.15 then ''dry_brush''
      else if pigment_hydrology state < 0.35 then ''controlled_wash''
      else if pigment_hydrology state < 0.55 then ''wet_on_dry''
      else if pigment_hydrology state < 0.8 then ''wet_on_wet''
      else ''flooding'')"

definition contrast_of :: "point \<Rightarrow> string" where
  "contrast_of state =
     (if anchor_density state > 0.7 then ''anchor_contrast''
      else if dissolution_rate state > 0.8 \<and> pigment_hydrology state > 0.8 then ''flood_flat''
      else if dissolution_rate state > 0.6 then ''high_key_dissolution''
      else if substrate_visibility state > 0.6 then ''lifted_wash''
      else ''photographic_preserved'')"

definition characteristics_of :: "point \<Rightarrow> string list" where
  "characteristics_of state =
     [if dissolution_rate state < 0.3
        then ''photographic fidelity dominant with watercolor accents''
      else if dissolution_rate state < 0.6
        then ''contested territory between photographic and painterly regimes''
      else ''painterly dissolution overriding photographic source'']
     @ (if edge_coherence state > 0.6
          then [''sharp architectural edges persisting through dissolution'']
        else if edge_coherence state < 0.3
          then [''all edges softened into feathered bleeds and backruns'']
        else [])
     @ (if substrate_visibility state > 0.6
          then [''paper surface breathing through as compositional element'']
        else [])
     @ (if pigment_hydrology state > 0.7
          then [''wet-on-wet pigment behavior driving visual texture'']
        else if pigment_hydrology state < 0.2
          then [''dry technique preserving structural marks'']
        else [])
     @ (if anchor_density state > 0.6
          then [''dense photographic anchors maintaining recognizability'']
        else if anchor_density state < 0.2
          then [''near-abstract with minimal fidelity anchors'']
        else [])"

text \<open>
  The result of \<^verbatim>\<open>map_dissolution_parameters\<close>. The catalog records copied into the
  JSON object (\<^verbatim>\<open>edge_mode_details\<close>, \<^verbatim>\<open>hydrology_details\<close>,
  \<^verbatim>\<open>contrast_curve_details\<close>, the substrate record, the style's keywords, optical
  properties and color associations, the vocabulary bundle) and the constant
  \<^verbatim>\<open>"weight": 1.0\<close> are left out; \<open>mp_substrate\<close> is the key of the substrate record,
  \<open>None\<close> for JSON \<^verbatim>\<open>null\<close>.
\<close>

record mapped_parameters =
  mp_style_id :: string
  mp_style_name :: string
  mp_intensity :: string
  mp_emphasis :: string
  mp_state :: point
  mp_nearest_visual_type :: string
  mp_visual_distance :: "real option"
  mp_active_edge_modes :: "string list"
  mp_hydrology_state :: string
  mp_contrast_curve :: string
  mp_substrate :: "string option"
  mp_characteristics :: "string list"

definition map_dissolution_parameters ::
  "string \<Rightarrow> string \<Rightarrow> string \<Rightarrow> string option \<Rightarrow> mapped_parameters response" where
  "map_dissolution_parameters style_id intensity emphasis substrate =
     (case map_of VISUAL_TYPES style_id of
        None \<Rightarrow> Failure (ErrorRecord (''Unknown style: '' @ style_id)
                  (Some (map fst VISUAL_TYPES)))
      | Some t \<Rightarrow>
          let state = mapped_state (center t) intensity emphasis;
              nearest = nearest_visual_type state
          in Success
               \<lparr>mp_style_id = style_id, mp_style_name = vt_name t,
                mp_intensity = intensity, mp_emphasis = emphasis,
                mp_state = round_state state,
                mp_nearest_visual_type = fst nearest,
                mp_visual_distance = map_option (\<lambda>d. py_round d 4) (snd nearest),
                mp_active_edge_modes = edge_modes_of state,
                mp_hydrology_state = hydrology_of state,
                mp_contrast_curve = contrast_of state,
                mp_substrate =
                  (case substrate of
                     None \<Rightarrow> None
                   | Some s \<Rightarrow> if s \<noteq> [] \<and> s \<in> set SUBSTRATE_TYPES then Some s else None),
                mp_characteristics = characteristics_of state\<rparr>)"

section \<open>Text matching\<close>

text \<open>
  A string is a list of bytes. \<^verbatim>\<open>str.lower()\<close> is modelled on ASCII letters (all the
  terms matched below are ASCII); \<open>contains text term\<close> is \<^verbatim>\<open>term in text\<close>.
\<close>

definition lower_char :: "char \<Rightarrow> char" where
  "lower_char c =
     (case map_of (zip ''ABCDEFGHIJKLMNOPQRSTUVWXYZ'' ''abcdefghijklmnopqrstuvwxyz'') c of
        None \<Rightarrow> c
      | Some l \<Rightarrow> l)"

definition lower :: "string \<Rightarrow> string" where
  "lower s = map lower_char s"

fun starts_with :: "string \<Rightarrow> string \<Rightarrow> bool" where
  "starts_with text [] = True"
| "starts_with [] (c # cs) = False"
| "starts_with (x # xs) (c # cs) = (x = c \<and> starts_with xs cs)"

fun contains :: "string \<Rightarrow> string \<Rightarrow> bool" where
  "contains [] term = starts_with [] term"
| "contains (x # xs) term = (starts_with (x # xs) term \<or> contains xs term)"

section \<open>Intent classification\<close>

definition dissolution_terms :: "(string \<times> string list) list" where
  "dissolution_terms =
     [(''editorial_wash'',
         [''editorial'', ''magazine'', ''controlled'', ''sharp subject'', ''accent'',
          ''selective'', ''subtle'', ''restrained'']),
      (''contested_boundary'',
         [''tension'', ''between'', ''both'', ''neither'', ''oscillat'', ''coexist'',
          ''compete'', ''mural'', ''boundary'', ''mix'']),
      (''full_dissolution'',
         [''loose'', ''dissolve'', ''painterly'', ''watercolor'', ''abstract'', ''bloom'',
          ''backrun'', ''complete'']),
      (''ghost_impression'',
         [''ghost'', ''faded'', ''blueprint'', ''trace'', ''skeleton'', ''palimpsest'',
          ''bleach'', ''dry'', ''crisp edge'']),
      (''substrate_emergence'',
         [''paper'', ''white space'', ''negative'', ''minimal'', ''restraint'', ''breath'',
          ''ma '', ''sparse'', ''empty'']),
      (''chromatic_flood'',
         [''flood'', ''saturated'', ''wet'', ''drip'', ''pour'', ''expressionist'', ''bold'',
          ''vivid'', ''maximum'', ''intense''])]"

definition hydrology_terms :: "(string \<times> string list) list" where
  "hydrology_terms =
     [(''dry'', [''dry brush'', ''dry'', ''textured'', ''broken'', ''scratchy'']),
      (''controlled'', [''controlled'', ''even'', ''smooth'', ''balanced'', ''standard'']),
      (''wet_on_dry'', [''layered'', ''crisp layer'', ''hard edge layer'', ''glazing'']),
      (''wet_on_wet'', [''wet on wet'', ''diffuse'', ''merge'', ''soft edge'', ''bloom'']),
      (''flooding'', [''flood'', ''drip'', ''gravity'', ''pour'', ''capillary'', ''run''])]"

text \<open>
  The scoring loop: one point for every term of the type that occurs in the text; a type
  gets an entry in \<^verbatim>\<open>matched_keywords\<close> only when some term matched.
\<close>

definition matches :: "string \<Rightarrow> string list \<Rightarrow> string list" where
  "matches text terms = filter (contains text) terms"

definition type_scores_of :: "string \<Rightarrow> (string \<times> int) list" where
  "type_scores_of text =
     map (\<lambda>entry. (fst entry, int (length (matches text (snd entry))))) dissolution_terms"

definition matched_keywords_of :: "string \<Rightarrow> (string \<times> string list) list" where
  "matched_keywords_of text =
     filter (\<lambda>entry. snd entry \<noteq> [])
       (map (\<lambda>entry. (fst entry, matches text (snd entry))) dissolution_terms)"

text \<open>
  \<^verbatim>\<open>max(xs, key=f)\<close> returns the first element whose key is maximal, and raises
  \<^verbatim>\<open>ValueError\<close> on an empty sequence (\<open>None\<close>).
\<close>

definition py_max_by :: "('a \<Rightarrow> 'b::linorder) \<Rightarrow> 'a list \<Rightarrow> 'a option" where
  "py_max_by key xs =
     (case xs of
        [] \<Rightarrow> None
      | x # rest \<Rightarrow> Some (fold (\<lambda>y best. if key best < key y then y else best) rest x))"

text \<open>
  The inner loop over the terms of one hydrology category ends at its first matching term
  (\<^verbatim>\<open>break\<close>); the outer loop over the categories goes on.
\<close>

fun hydrology_inner :: "string \<Rightarrow> string \<Rightarrow> string list \<Rightarrow> string \<Rightarrow> string" where
  "hydrology_inner text hid [] hydrology_match = hydrology_match"
| "hydrology_inner text hid (term # terms) hydrology_match =
     (if contains text term then (if hid \<noteq> ''dry'' then hid else ''dry_brush'')
      else hydrology_inner text hid terms hydrology_match)"

definition hydrology_match_of :: "string \<Rightarrow> string" where
  "hydrology_match_of text =
     fold (\<lambda>entry hydrology_match. hydrology_inner text (fst entry) (snd entry) hydrology_match)
       hydrology_terms ''controlled_wash''"

definition substrate_match_of :: "string \<Rightarrow> string" where
  "substrate_match_of text =
     (if list_ex (contains text) [''smooth'', ''fine detail'', ''illustration''] then ''hot_press''
      else if list_ex (contains text) [''rough'', ''texture'', ''expressive''] then ''rough''
      else if list_ex (contains text) [''japanese'', ''sumi'', ''ink wash''] then ''masa''
      else if list_ex (contains text) [''experimental'', ''synthetic'', ''yupo''] then ''yupo''
      else ''cold_press'')"

text \<open>
  The result of \<^verbatim>\<open>classify_dissolution_intent\<close>, without \<^verbatim>\<open>style_details\<close> (the
  name and the description of the primary style).
\<close>

record classification =
  cl_primary_style :: string
  cl_confidence :: real
  cl_type_scores :: "(string \<times> int) list"
  cl_matched_keywords :: "(string \<times> string list) list"
  cl_suggested_hydrology :: string
  cl_suggested_substrate :: string
  cl_center :: point

text \<open>
  The primary style: the default when the highest score is 0, else the first type with
  the highest score. Both \<^verbatim>\<open>max\<close> calls raise on an empty dictionary.
\<close>

definition primary_and_confidence :: "(string \<times> int) list \<Rightarrow> (string \<times> real) option" where
  "primary_and_confidence type_scores =
     (case py_max_by id (map snd type_scores) of
        None \<Rightarrow> None
      | Some m \<Rightarrow>
          if m = 0 then Some (''contested_boundary'', 0.3)
          else (case py_max_by snd type_scores of
                  None \<Rightarrow> None
                | Some best \<Rightarrow> Some (fst best, min 1.0 (of_int m / 4.0))))"

definition classify_dissolution_intent :: "string \<Rightarrow> classification response" where
  "classify_dissolution_intent user_intent =
     (let text = lower user_intent;
          type_scores = type_scores_of text
      in case primary_and_confidence type_scores of
           None \<Rightarrow> Raises ValueError
         | Some pc \<Rightarrow>
             (case map_of VISUAL_TYPES (fst pc) of
                None \<Rightarrow> Raises KeyError
              | Some vt \<Rightarrow>
                  Success
                    \<lparr>cl_primary_style = fst pc, cl_confidence = snd pc,
                     cl_type_scores = type_scores,
                     cl_matched_keywords = matched_keywords_of text,
                     cl_suggested_hydrology = hydrology_match_of text,
                     cl_suggested_substrate = substrate_match_of text,
                     cl_center = center vt\<rparr>))"

section \<open>Distance and trajectory\<close>

text \<open>
  The local function \<^verbatim>\<open>_resolve\<close> of \<^verbatim>\<open>compute_dissolution_distance\<close> and of
  \<^verbatim>\<open>compute_dissolution_trajectory\<close> (the two copies are the same): canonical state
  first, then visual type, then attractor preset.
\<close>

definition resolve :: "string \<Rightarrow> point option" where
  "resolve sid =
     (case map_of CANONICAL_STATES sid of
        Some cs \<Rightarrow> Some (coordinates cs)
      | None \<Rightarrow>
          (case map_of VISUAL_TYPES sid of
             Some vt \<Rightarrow> Some (center vt)
           | None \<Rightarrow>
               (case map_of ATTRACTOR_PRESETS sid of
                  Some ap \<Rightarrow> Some (ap_state ap)
                | None \<Rightarrow> None)))"

record distance_result =
  dist_id_1 :: string
  dist_id_2 :: string
  dist_distance :: real
  per_axis_difference :: point
  dominant_axis :: string

definition compute_dissolution_distance :: "string \<Rightarrow> string \<Rightarrow> distance_result response" where
  "compute_dissolution_distance id_1 id_2 =
     (case resolve id_1 of
        None \<Rightarrow> Failure (ErrorRecord (''Unknown id: '' @ id_1) None)
      | Some s1 \<Rightarrow>
          (case resolve id_2 of
             None \<Rightarrow> Failure (ErrorRecord (''Unknown id: '' @ id_2) None)
           | Some s2 \<Rightarrow>
               let dist = euclidean_distance s1 s2;
                   diff = mk_point (\<lambda>k. py_round (coord s2 k - coord s1 k) 4)
               in case py_max_by (\<lambda>k. \<bar>coord diff k\<bar>) PARAMETER_NAMES of
                    None \<Rightarrow> Raises ValueError
                  | Some k \<Rightarrow>
                      Success
                        \<lparr>dist_id_1 = id_1, dist_id_2 = id_2, dist_distance = py_round dist 4,
                         per_axis_difference = diff, dominant_axis = axis_name k\<rparr>))"

record trajectory_step =
  ts_step :: nat
  ts_t :: real
  ts_state :: point
  ts_nearest_type :: string
  ts_type_distance :: "real option"

record trajectory_result =
  tr_start_id :: string
  tr_end_id :: string
  tr_num_steps :: int
  tr_total_distance :: real
  tr_trajectory :: "trajectory_step list"

text \<open>
  \<^verbatim>\<open>range(num_steps + 1)\<close> is empty for a negative \<^verbatim>\<open>num_steps\<close>; for
  \<^verbatim>\<open>num_steps = 0\<close> the first division \<^verbatim>\<open>i / num_steps\<close> raises.
\<close>

definition trajectory_step_at :: "point \<Rightarrow> point \<Rightarrow> int \<Rightarrow> nat \<Rightarrow> trajectory_step" where
  "trajectory_step_at start end num_steps i =
     (let t = of_nat i / of_int num_steps;
          state = lerp_state start end t;
          nearest = nearest_visual_type state
      in \<lparr>ts_step = i, ts_t = py_round t 4, ts_state = round_state state,
          ts_nearest_type = fst nearest,
          ts_type_distance = map_option (\<lambda>d. py_round d 4) (snd nearest)\<rparr>)"

definition compute_dissolution_trajectory ::
  "string \<Rightarrow> string \<Rightarrow> int \<Rightarrow> trajectory_result response" where
  "compute_dissolution_trajectory start_id end_id num_steps =
     (case resolve start_id of
        None \<Rightarrow> Failure (ErrorRecord (''Unknown id: '' @ start_id) None)
      | Some start \<Rightarrow>
          (case resolve end_id of
             None \<Rightarrow> Failure (ErrorRecord (''Unknown id: '' @ end_id) None)
           | Some end \<Rightarrow>
               if num_steps = 0 then Raises ZeroDivisionError
               else Success
                 \<lparr>tr_start_id = start_id, tr_end_id = end_id, tr_num_steps = num_steps,
                  tr_total_distance = py_round (euclidean_distance start end) 4,
                  tr_trajectory =
                    map (trajectory_step_at start end num_steps) [0 ..< nat (num_steps + 1)]\<rparr>))"

section \<open>Softmax and decomposition\<close>

text \<open>
  \<^verbatim>\<open>_softmax\<close> over a dictionary of scores. A zero temperature raises at the first
  division, which an empty dictionary never reaches. \<open>exp\<close> is the real exponential:
  it is positive and never overflows, as \<^verbatim>\<open>math.exp\<close> does not for the arguments
  \<open>(v - max_s) / temperature \<le> 0\<close> of a positive temperature.
\<close>

definition exp_s_of :: "('k \<times> real) list \<Rightarrow> real \<Rightarrow> ('k \<times> real) list" where
  "exp_s_of scores temperature =
     (let max_s = (if scores \<noteq> [] then Max (set (map snd scores)) else 0)
      in map (\<lambda>entry. (fst entry, exp ((snd entry - max_s) / temperature))) scores)"

definition softmax :: "('k \<times> real) list \<Rightarrow> real \<Rightarrow> ('k \<times> real) list response" where
  "softmax scores temperature =
     (if scores \<noteq> [] \<and> temperature = 0 then Raises ZeroDivisionError
      else
        let exp_s = exp_s_of scores temperature;
            total = sum_list (map snd exp_s)
        in Success (if total > 0 then map (\<lambda>entry. (fst entry, snd entry / total)) exp_s
                    else exp_s))"

definition fragment_map :: "(string \<times> string list) list" where
  "fragment_map =
     [(''editorial_wash'',
         [''editorial'', ''magazine'', ''controlled'', ''sharp'', ''accent'',
          ''selective'', ''restrain'', ''subtle'', ''disciplin'', ''photographic'']),
      (''contested_boundary'',
         [''tension'', ''between'', ''neither'', ''oscillat'', ''coexist'',
          ''compete'', ''boundary'', ''unresolved'', ''both'', ''mural'']),
      (''full_dissolution'',
         [''dissolv'', ''loose'', ''bloom'', ''backrun'', ''granulat'',
          ''diffus'', ''abstract'', ''painterly'', ''watercolor'', ''paper texture'']),
      (''ghost_impression'',
         [''ghost'', ''faded'', ''blueprint'', ''palimpsest'', ''trace'',
          ''skeleton'', ''bleach'', ''dry'', ''parchment'', ''iron-gall'']),
      (''substrate_emergence'',
         [''paper'', ''white space'', ''negative space'', ''minimal'',
          ''restraint'', ''breath'', ''ma '', ''sparse'', ''empty'', ''unpaint'']),
      (''chromatic_flood'',
         [''flood'', ''saturat'', ''wet-on-wet'', ''drip'', ''capillary'',
          ''pour'', ''expressionist'', ''bold color'', ''vivid'', ''chromatic''])]"

definition optical_map :: "(string \<times> string list) list" where
  "optical_map =
     [(''editorial_wash'', [''matte'', ''opaque'', ''photographic'']),
      (''contested_boundary'', [''mixed'', ''variable'', ''halation'']),
      (''full_dissolution'', [''translucent'', ''diffuse'', ''paper matte'']),
      (''ghost_impression'', [''dry matte'', ''semi transparent'', ''no scatter'']),
      (''substrate_emergence'', [''paper dominant'', ''zero scatter'', ''ground'']),
      (''chromatic_flood'', [''wet satin'', ''maximum scatter'', ''saturated''])]"

definition color_map :: "(string \<times> string list) list" where
  "color_map =
     [(''editorial_wash'', [''neutral'', ''muted'', ''editorial'']),
      (''contested_boundary'', [''warm'', ''analogous'', ''amber'']),
      (''full_dissolution'', [''diluted'', ''granulation'', ''paper white'']),
      (''ghost_impression'', [''faded'', ''earth'', ''parchment'', ''tea'']),
      (''substrate_emergence'', [''white dominant'', ''sparse'', ''chromatic island'']),
      (''chromatic_flood'', [''saturated'', ''vivid'', ''intense'', ''bright''])]"

definition fragment_score :: "string \<Rightarrow> string \<Rightarrow> real" where
  "fragment_score text tid =
     of_nat (length (matches text (dict_get fragment_map tid [])))
     + 0.5 * of_nat (length (matches text (dict_get optical_map tid [])))
     + 0.5 * of_nat (length (matches text (dict_get color_map tid [])))"

definition decompose_scores :: "string \<Rightarrow> (string \<times> real) list" where
  "decompose_scores text = map (\<lambda>entry. (fst entry, fragment_score text (fst entry))) VISUAL_TYPES"

text \<open>
  The weighted average of the centers. \<^verbatim>\<open>VISUAL_TYPES[tid]\<close> raises \<^verbatim>\<open>KeyError\<close>
  on an unknown key (\<open>None\<close>); each coordinate is the sum of the products
  \<^verbatim>\<open>w * center[k]\<close>, which the loop accumulates from \<open>0.0\<close>.
\<close>

definition weighted_centers :: "(string \<times> real) list \<Rightarrow> (real \<times> point) list option" where
  "weighted_centers weights =
     those (map (\<lambda>entry. map_option (\<lambda>vt. (snd entry, center vt))
                          (map_of VISUAL_TYPES (fst entry))) weights)"

definition blend :: "(real \<times> point) list \<Rightarrow> point" where
  "blend wcs = mk_point (\<lambda>k. \<Sum>wc\<leftarrow>wcs. fst wc * coord (snd wc) k)"

text \<open>
  The result of \<^verbatim>\<open>decompose_dissolution_from_description\<close>, without the matched
  fragments and the optical and color text of the nearest type.
\<close>

record decomposition =
  dc_coordinates :: point
  dc_confidence :: real
  dc_nearest_type :: string
  dc_nearest_type_distance :: "real option"
  dc_type_scores :: "(string \<times> real) list"
  dc_type_weights :: "(string \<times> real) list"
  dc_detected :: bool

definition decompose_dissolution_from_description :: "string \<Rightarrow> decomposition response" where
  "decompose_dissolution_from_description description =
     (let text = lower description;
          type_scores = decompose_scores text
      in case softmax type_scores 1.0 of
           Raises e \<Rightarrow> Raises e
         | Failure e \<Rightarrow> Failure e
         | Success weights \<Rightarrow>
             (case weighted_centers weights of
                None \<Rightarrow> Raises KeyError
              | Some wcs \<Rightarrow>
                  let coordinates = blend wcs;
                      total_matches = sum_list (map snd type_scores);
                      confidence = min 1.0 (total_matches / 8.0);
                      nearest = nearest_visual_type coordinates
                  in Success
                       \<lparr>dc_coordinates = round_state coordinates,
                        dc_confidence = py_round confidence 4,
                        dc_nearest_type = fst nearest,
                        dc_nearest_type_distance = map_option (\<lambda>d. py_round d 4) (snd nearest),
                        dc_type_scores = map (\<lambda>entry. (fst entry, py_round (snd entry) 2)) type_scores,
                        dc_type_weights = map (\<lambda>entry. (fst entry, py_round (snd entry) 4)) weights,
                        dc_detected = (total_matches > 0)\<rparr>))"

text \<open>The bounding box of the six centers, axis by axis.\<close>

definition center_min :: "axis \<Rightarrow> real" where
  "center_min k = Min (set (map (\<lambda>entry. coord (center (snd entry)) k) VISUAL_TYPES))"

definition center_max :: "axis \<Rightarrow> real" where
  "center_max k = Max (set (map (\<lambda>entry. coord (center (snd entry)) k) VISUAL_TYPES))"

section \<open>Attractor prompt\<close>

text \<open>
  \<^verbatim>\<open>generate_dissolution_attractor_prompt\<close> first fixes a state: the custom state
  when one is given, else the attractor preset, the visual type or the canonical state
  of that name, else the center of \<^verbatim>\<open>contested_boundary\<close>.
\<close>

definition attractor_state :: "string \<Rightarrow> point option \<Rightarrow> point option" where
  "attractor_state attractor_id custom_state =
     (case custom_state of
        Some s \<Rightarrow> Some s
      | None \<Rightarrow>
          (case map_of ATTRACTOR_PRESETS attractor_id of
             Some ap \<Rightarrow> Some (ap_state ap)
           | None \<Rightarrow>
               (case map_of VISUAL_TYPES attractor_id of
                  Some vt \<Rightarrow> Some (center vt)
                | None \<Rightarrow>
                    (case map_of CANONICAL_STATES attractor_id of
                       Some cs \<Rightarrow> Some (coordinates cs)
                     | None \<Rightarrow> map_option center (map_of VISUAL_TYPES ''contested_boundary'')))))"

text \<open>
  The four descriptor phrases of the prompt are chosen by threshold ladders; a
  constructor stands for the phrase of its branch.
\<close>

datatype hydro_desc = HydroDryBrush | HydroControlledWash | HydroWetOnDry | HydroWetOnWet | HydroFlooding
datatype edge_desc = EdgeArchitectural | EdgeMixed | EdgeFeathered
datatype sub_desc = SubstrateDominant | SubstratePartial | SubstrateHidden
datatype anchor_desc = AnchorDense | AnchorScattered | AnchorMinimal

definition hydro_desc_of :: "point \<Rightarrow> hydro_desc" where
  "hydro_desc_of state =
     (if pigment_hydrology state < 0.15 then HydroDryBrush
      else if pigment_hydrology state < 0.35 then HydroControlledWash
      else if pigment_hydrology state < 0.55 then HydroWetOnDry
      else if pigment_hydrology state < 0.8 then HydroWetOnWet
      else HydroFlooding)"

definition edge_desc_of :: "point \<Rightarrow> edge_desc" where
  "edge_desc_of state =
     (if edge_coherence state > 0.7 then EdgeArchitectural
      else if edge_coherence state > 0.4 then EdgeMixed
      else EdgeFeathered)"

definition sub_desc_of :: "point \<Rightarrow> sub_desc" where
  "sub_desc_of state =
     (if substrate_visibility state > 0.7 then SubstrateDominant
      else if substrate_visibility state > 0.35 then SubstratePartial
      else SubstrateHidden)"

definition anchor_desc_of :: "point \<Rightarrow> anchor_desc" where
  "anchor_desc_of state =
     (if anchor_density state > 0.7 then AnchorDense
      else if anchor_density state > 0.3 then AnchorScattered
      else AnchorMinimal)"

text \<open>
  \<^verbatim>\<open>base_prompt\<close> is kept as its parts: the nearest type, whose name, description,
  colors and optical finish the text quotes, the four descriptors and the style modifier.
\<close>

record base_prompt =
  bp_nearest_type :: string
  bp_hydro_desc :: hydro_desc
  bp_edge_desc :: edge_desc
  bp_sub_desc :: sub_desc
  bp_anchor_desc :: anchor_desc
  bp_style_modifier :: string

record keyframe =
  kf_keyframe :: nat
  kf_t :: real
  kf_state :: point
  kf_nearest_type :: string

text \<open>
  One constructor for each mode. The vocabulary views of \<^verbatim>\<open>split_view\<close> are not
  modelled. In mode \<^verbatim>\<open>sequence\<close> the key frames run from the center of
  \<^verbatim>\<open>editorial_wash\<close> to the state, at \<^verbatim>\<open>t = i / max(1, keyframe_count - 1)\<close>.
\<close>

datatype prompt_bundle =
  Composite base_prompt point string
| SplitView base_prompt point
| Sequence int "keyframe list"

definition keyframe_at :: "point \<Rightarrow> point \<Rightarrow> int \<Rightarrow> nat \<Rightarrow> keyframe" where
  "keyframe_at start state keyframe_count i =
     (let t = of_nat i / of_int (max 1 (keyframe_count - 1));
          kf_state = lerp_state start state t
      in \<lparr>kf_keyframe = i + 1, kf_t = py_round t 3, kf_state = round_state kf_state,
          kf_nearest_type = fst (nearest_visual_type kf_state)\<rparr>)"

definition generate_dissolution_attractor_prompt ::
  "string \<Rightarrow> point option \<Rightarrow> string \<Rightarrow> string \<Rightarrow> int \<Rightarrow> prompt_bundle response" where
  "generate_dissolution_attractor_prompt attractor_id custom_state mode style_modifier keyframe_count =
     (case attractor_state attractor_id custom_state of
        None \<Rightarrow> Raises KeyError
      | Some state \<Rightarrow>
          let nearest_id = fst (nearest_visual_type state)
          in case map_of VISUAL_TYPES nearest_id of
               None \<Rightarrow> Raises KeyError
             | Some vt \<Rightarrow>
                 let prompt =
                       \<lparr>bp_nearest_type = nearest_id, bp_hydro_desc = hydro_desc_of state,
                        bp_edge_desc = edge_desc_of state, bp_sub_desc = sub_desc_of state,
                        bp_anchor_desc = anchor_desc_of state,
                        bp_style_modifier = style_modifier\<rparr>
                 in if mode = ''composite''
                      then Success (Composite prompt (round_state state) nearest_id)
                    else if mode = ''split_view''
                      then Success (SplitView prompt (round_state state))
                    else if mode = ''sequence''
                      then (case map_of VISUAL_TYPES ''editorial_wash'' of
                              None \<Rightarrow> Raises KeyError
                            | Some ew \<Rightarrow>
                                Success (Sequence keyframe_count
                                  (map (keyframe_at (center ew) state keyframe_count)
                                     [0 ..< nat keyframe_count])))
                    else Failure (ErrorRecord (''Unknown mode: '' @ mode) None))"

section \<open>Binary64 arithmetic\<close>

text \<open>
  The interpolation once more, now with Python's floats as they are: IEEE 754 binary64
  numbers, every operation rounded to the nearest representable number, a tie going to
  the even significand. A float is the real number it stands for; \<open>fl x\<close> is the float
  nearest to the real \<open>x\<close>, so the literal \<^verbatim>\<open>0.15\<close> is \<open>fl 0.15\<close>. Infinities and
  NaN are not modelled: all numbers of this section are below 2 in magnitude.

  \<open>expo x\<close> is the binary exponent of a positive \<open>x\<close>, the \<open>e\<close> with
  \<open>2 ^ e \<le> x < 2 ^ (e + 1)\<close>; the unit in the last place of \<open>x\<close> is then
  \<open>2 ^ (e - 52)\<close>, and \<open>2 ^ (- 1074)\<close> in the subnormal range.
\<close>

definition pow2 :: "int \<Rightarrow> real" where
  "pow2 e = (if 0 \<le> e then 2 ^ nat e else 1 / 2 ^ nat (- e))"

function expo :: "real \<Rightarrow> int" where
  "expo x = (if x \<le> 0 then 0
             else if x < 1 then expo (2 * x) - 1
             else if 2 \<le> x then expo (x / 2) + 1
             else 0)"
  by pat_completeness auto
termination
proof (relation "measure (\<lambda>x. if x < 1 then nat \<lceil>1 / x\<rceil> + 2 else nat \<lceil>x\<rceil>)")
  show "wf (measure (\<lambda>x::real. if x < 1 then nat \<lceil>1 / x\<rceil> + 2 else nat \<lceil>x\<rceil>))" by simp
next
  have half: "\<lceil>y / 2\<rceil> < \<lceil>y\<rceil> \<and> 0 < \<lceil>y\<rceil>" if "2 \<le> y" for y :: real
  proof -
    have "y / 2 \<le> of_int \<lceil>y\<rceil> - 1" using that le_of_int_ceiling [of y] by linarith
    then have "y / 2 \<le> of_int (\<lceil>y\<rceil> - 1)" by simp
    then have "\<lceil>y / 2\<rceil> \<le> \<lceil>y\<rceil> - 1" by (simp only: ceiling_le_iff)
    moreover have "0 < \<lceil>y\<rceil>" using that by (simp add: less_ceiling_iff)
    ultimately show ?thesis by simp
  qed
  fix x :: real
  assume a: "\<not> x \<le> 0" "x < 1"
  show "(2 * x, x) \<in> measure (\<lambda>x. if x < 1 then nat \<lceil>1 / x\<rceil> + 2 else nat \<lceil>x\<rceil>)"
  proof (cases "2 * x < 1")
    case True
    with a have "2 \<le> 1 / x" by (simp add: field_simps)
    from half [OF this] have "\<lceil>1 / (2 * x)\<rceil> < \<lceil>1 / x\<rceil> \<and> 0 < \<lceil>1 / x\<rceil>" by (simp add: field_simps)
    then show ?thesis using True a by simp
  next
    case False
    have "\<lceil>2 * x\<rceil> \<le> 2" using a by (simp add: ceiling_le_iff)
    then have "nat \<lceil>2 * x\<rceil> \<le> 2" by simp
    moreover have "0 < \<lceil>1 / x\<rceil>" using a by (simp add: less_ceiling_iff)
    then have "1 \<le> nat \<lceil>1 / x\<rceil>" by linarith
    ultimately have lt: "nat \<lceil>2 * x\<rceil> < nat \<lceil>1 / x\<rceil> + 2" by linarith
    have m1: "(if 2 * x < 1 then nat \<lceil>1 / (2 * x)\<rceil> + 2 else nat \<lceil>2 * x\<rceil>) = nat \<lceil>2 * x\<rceil>"
      using False by simp
    have m2: "(if x < 1 then nat \<lceil>1 / x\<rceil> + 2 else nat \<lceil>x\<rceil>) = nat \<lceil>1 / x\<rceil> + 2"
      using a by simp
    show ?thesis unfolding in_measure m1 m2 by (rule lt)
  qed
next
  have half: "\<lceil>y / 2\<rceil> < \<lceil>y\<rceil> \<and> 0 < \<lceil>y\<rceil>" if "2 \<le> y" for y :: real
  proof -
    have "y / 2 \<le> of_int \<lceil>y\<rceil> - 1" using that le_of_int_ceiling [of y] by linarith
    then have "y / 2 \<le> of_int (\<lceil>y\<rceil> - 1)" by simp
    then have "\<lceil>y / 2\<rceil> \<le> \<lceil>y\<rceil> - 1" by (simp only: ceiling_le_iff)
    moreover have "0 < \<lceil>y\<rceil>" using that by (simp add: less_ceiling_iff)
    ultimately show ?thesis by simp
  qed
  fix x :: real
  assume a: "\<not> x \<le> 0" "\<not> x < 1" "2 \<le> x"
  from half [OF a(3)] show "(x / 2, x) \<in> measure (\<lambda>x. if x < 1 then nat \<lceil>1 / x\<rceil> + 2 else nat \<lceil>x\<rceil>)"
    using a by simp
qed

declare expo.simps [simp del]

definition fl :: "real \<Rightarrow> real" where
  "fl x =
     (if x = 0 then 0
      else let e = max (expo \<bar>x\<bar>) (- 1022); u = pow2 (e - 52)
           in of_int (round_half_even (x / u)) * u)"

definition b64_add :: "real \<Rightarrow> real \<Rightarrow> real" where
  "b64_add x y = fl (x + y)"

definition b64_sub :: "real \<Rightarrow> real \<Rightarrow> real" where
  "b64_sub x y = fl (x - y)"

definition b64_mul :: "real \<Rightarrow> real \<Rightarrow> real" where
  "b64_mul x y = fl (x * y)"

definition b64_div :: "real \<Rightarrow> real \<Rightarrow> real" where
  "b64_div x y = fl (x / y)"

text \<open>
  \<^verbatim>\<open>round(x, n)\<close> on a float rounds its exact value to \<open>n\<close> decimals, a tie going to
  the even digit, and returns the float nearest to that decimal number.
\<close>

definition py_round_b64 :: "real \<Rightarrow> nat \<Rightarrow> real" where
  "py_round_b64 x n = fl (of_int (round_half_even (x * 10 ^ n)) / 10 ^ n)"

text \<open>The dictionary of floats that a dictionary of decimal literals denotes.\<close>

definition b64_point :: "point \<Rightarrow> point" where
  "b64_point p = mk_point (\<lambda>k. fl (coord p k))"

text \<open>\<^verbatim>\<open>_lerp_state\<close>: \<^verbatim>\<open>a[k] + t * (b[k] - a[k])\<close>, each operation rounded.\<close>

definition lerp_state_b64 :: "point \<Rightarrow> point \<Rightarrow> real \<Rightarrow> point" where
  "lerp_state_b64 a b t =
     mk_point (\<lambda>k. b64_add (coord a k) (b64_mul t (b64_sub (coord b k) (coord a k))))"

definition round_state_b64 :: "point \<Rightarrow> point" where
  "round_state_b64 s = mk_point (\<lambda>k. py_round_b64 (coord s k) 4)"

text \<open>
  The \<^verbatim>\<open>"state"\<close> entries of the trajectory of
  \<^verbatim>\<open>compute_dissolution_trajectory\<close>, in binary64; \<^verbatim>\<open>i / num_steps\<close> divides two
  integers and is the float nearest to the quotient.
\<close>

definition trajectory_state_b64 :: "point \<Rightarrow> point \<Rightarrow> int \<Rightarrow> nat \<Rightarrow> point" where
  "trajectory_state_b64 start end num_steps i =
     (let t = b64_div (of_nat i) (of_int num_steps)
      in round_state_b64 (lerp_state_b64 start end t))"

definition compute_dissolution_trajectory_b64 ::
  "string \<Rightarrow> string \<Rightarrow> int \<Rightarrow> point list response" where
  "compute_dissolution_trajectory_b64 start_id end_id num_steps =
     (case resolve start_id of
        None \<Rightarrow> Failure (ErrorRecord (''Unknown id: '' @ start_id) None)
      | Some start \<Rightarrow>
          (case resolve end_id of
             None \<Rightarrow> Failure (ErrorRecord (''Unknown id: '' @ end_id) None)
           | Some end \<Rightarrow>
               if num_steps = 0 then Raises ZeroDivisionError
               else Success
                 (map (trajectory_state_b64 (b64_point start) (b64_point end) num_steps)
                    [0 ..< nat (num_steps + 1)])))"

section \<open>Rounding keeps decimal bounds\<close>

lemma round_half_even_ge:
  assumes "of_int n \<le> y"
  shows "n \<le> round_half_even y"
proof -
  from assms have "n \<le> \<lfloor>y\<rfloor>" by (simp add: le_floor_iff)
  then show ?thesis by (simp add: round_half_even_def Let_def)
qed

lemma round_half_even_le:
  assumes "y \<le> of_int m"
  shows "round_half_even y \<le> m"
proof (cases "y = of_int m")
  case True
  then show ?thesis by (simp add: round_half_even_def Let_def)
next
  case False
  with assms have "y < of_int m" by simp
  then have "\<lfloor>y\<rfloor> < m" by (simp add: floor_less_iff)
  then show ?thesis by (simp add: round_half_even_def Let_def)
qed

lemma py_round_ge:
  assumes "of_int n / 10 ^ d \<le> x"
  shows "of_int n / 10 ^ d \<le> py_round x d"
proof -
  from assms have "of_int n \<le> x * 10 ^ d" by (simp add: pos_divide_le_eq)
  then have "n \<le> round_half_even (x * 10 ^ d)" by (rule round_half_even_ge)
  then have "(of_int n :: real) \<le> of_int (round_half_even (x * 10 ^ d))" by simp
  then show ?thesis by (simp add: py_round_def divide_right_mono)
qed

lemma py_round_le:
  assumes "x \<le> of_int m / 10 ^ d"
  shows "py_round x d \<le> of_int m / 10 ^ d"
proof -
  from assms have "x * 10 ^ d \<le> of_int m" by (simp add: pos_le_divide_eq)
  then have "round_half_even (x * 10 ^ d) \<le> m" by (rule round_half_even_le)
  then have "(of_int (round_half_even (x * 10 ^ d)) :: real) \<le> of_int m" by simp
  then show ?thesis by (simp add: py_round_def divide_right_mono)
qed

lemma py_round_unit_interval:
  assumes "0 \<le> x" and "x \<le> 1"
  shows "0 \<le> py_round x 4 \<and> py_round x 4 \<le> 1"
proof -
  have "of_int 0 / 10 ^ 4 \<le> py_round x 4"
    by (rule py_round_ge) (use assms in simp)
  moreover have "py_round x 4 \<le> of_int 10000 / 10 ^ 4"
    by (rule py_round_le) (use assms in simp)
  ultimately show ?thesis by simp
qed

section \<open>The parameter mapper clamps\<close>

lemma coord_round_state: "coord (round_state s) k = py_round (coord s k) 4"
  by (cases k) (simp_all add: round_state_def mk_point_def)

lemma mapped_state_bounds:
  "0 \<le> coord (mapped_state c intensity emphasis) k \<and> coord (mapped_state c intensity emphasis) k \<le> 1"
  by (cases k) (simp_all add: mapped_state_def mk_point_def Let_def)

text \<open>
  Claim C4. \<^verbatim>\<open>map_dissolution_parameters("chromatic_flood", intensity="dramatic")\<close>, with
  the default emphasis \<^verbatim>\<open>"balanced"\<close> and no substrate, returns a state whose
  \<^verbatim>\<open>pigment_hydrology\<close> is exactly 1 (the scaled value 1.13 is clamped) and the
  hydrology state \<^verbatim>\<open>"flooding"\<close>.
\<close>

theorem chromatic_flood_dramatic:
  "\<exists>r. map_dissolution_parameters ''chromatic_flood'' ''dramatic'' ''balanced'' None = Success r
     \<and> pigment_hydrology (mp_state r) = 1 \<and> mp_hydrology_state r = ''flooding''"
  by (simp add: map_dissolution_parameters_def VISUAL_TYPES_def mapped_state_def dict_get_def
      intensity_scales_def emphasis_shifts_def mk_point_def chromatic_flood_center_def
      round_state_def py_round_def round_half_even_def hydrology_of_def Let_def)

text \<open>
  Claim C8. For a known style id and any intensity, emphasis and substrate, the call
  succeeds and each of the five coordinates of the returned state lies in \<open>[0, 1]\<close>.
\<close>

theorem mapped_state_in_unit_box:
  assumes "style_id \<in> set (map fst VISUAL_TYPES)"
  shows "\<exists>r. map_dissolution_parameters style_id intensity emphasis substrate = Success r
    \<and> (\<forall>k. 0 \<le> coord (mp_state r) k \<and> coord (mp_state r) k \<le> 1)"
proof -
  from assms obtain t where t: "map_of VISUAL_TYPES style_id = Some t"
    by (metis map_of_eq_None_iff not_Some_eq set_map)
  have "0 \<le> coord (round_state (mapped_state (center t) intensity emphasis)) k
      \<and> coord (round_state (mapped_state (center t) intensity emphasis)) k \<le> 1" for k
    using py_round_unit_interval mapped_state_bounds by (simp add: coord_round_state)
  then show ?thesis
    by (simp add: map_dissolution_parameters_def t Let_def)
qed

theorem mapped_state_in_unit_box_witness:
  "\<exists>r. map_dissolution_parameters ''ghost_impression'' ''dramatic'' ''hydrology'' (Some ''yupo'')
         = Success r
    \<and> (\<forall>k. 0 \<le> coord (mp_state r) k \<and> coord (mp_state r) k \<le> 1)"
proof -
  have "''ghost_impression'' \<in> set (map fst VISUAL_TYPES)"
    by (simp add: VISUAL_TYPES_def)
  then show ?thesis by (rule mapped_state_in_unit_box)
qed

section \<open>The classifier's default\<close>

lemma matches_none:
  assumes "\<forall>term\<in>set terms. \<not> contains text term"
  shows "matches text terms = []"
  using assms by (simp add: matches_def filter_empty_conv)

lemma type_scores_zero:
  assumes "\<forall>entry\<in>set dissolution_terms. \<forall>term\<in>set (snd entry). \<not> contains text term"
  shows "type_scores_of text = map (\<lambda>entry. (fst entry, 0)) dissolution_terms"
  unfolding type_scores_of_def
  by (rule map_cong [OF refl]) (use assms in \<open>simp add: matches_none\<close>)

lemma primary_default:
  assumes "\<forall>entry\<in>set dissolution_terms. \<forall>term\<in>set (snd entry). \<not> contains text term"
  shows "primary_and_confidence (type_scores_of text) = Some (''contested_boundary'', 3 / 10)"
  unfolding type_scores_zero [OF assms]
  by (simp add: primary_and_confidence_def py_max_by_def dissolution_terms_def)

lemma no_terms_in_empty:
  "\<forall>entry\<in>set dissolution_terms. \<forall>term\<in>set (snd entry). \<not> contains [] term"
  by (simp add: dissolution_terms_def)

lemma map_of_contested_boundary:
  "map_of VISUAL_TYPES ''contested_boundary''
     = Some \<lparr>vt_name = ''Contested Boundary'', center = contested_boundary_center\<rparr>"
  by (simp add: VISUAL_TYPES_def)

lemma map_of_editorial_wash:
  "map_of VISUAL_TYPES ''editorial_wash''
     = Some \<lparr>vt_name = ''Editorial Wash'', center = editorial_wash_center\<rparr>"
  by (simp add: VISUAL_TYPES_def)

text \<open>
  Claim C5. The empty string is classified as \<^verbatim>\<open>contested_boundary\<close> with confidence
  exactly 0.3; and so is every text in which no term of any type occurs: the call
  succeeds with this default.
\<close>

theorem classify_default:
  "(\<exists>r. classify_dissolution_intent '''' = Success r
        \<and> cl_primary_style r = ''contested_boundary'' \<and> cl_confidence r = 3 / 10)
   \<and> ((\<forall>entry\<in>set dissolution_terms. \<forall>term\<in>set (snd entry).
          \<not> contains (lower user_intent) term)
        \<longrightarrow> (\<exists>r. classify_dissolution_intent user_intent = Success r
              \<and> cl_primary_style r = ''contested_boundary'' \<and> cl_confidence r = 3 / 10))"
proof -
  have gen: "\<exists>r. classify_dissolution_intent u = Success r
        \<and> cl_primary_style r = ''contested_boundary'' \<and> cl_confidence r = 3 / 10"
    if "\<forall>entry\<in>set dissolution_terms. \<forall>term\<in>set (snd entry). \<not> contains (lower u) term" for u
    by (simp add: classify_dissolution_intent_def Let_def primary_default [OF that]
        map_of_contested_boundary)
  have "\<forall>entry\<in>set dissolution_terms. \<forall>term\<in>set (snd entry). \<not> contains (lower '''') term"
    using no_terms_in_empty by (simp add: lower_def)
  then show ?thesis using gen by blast
qed

theorem classify_default_witness:
  "\<exists>r. classify_dissolution_intent ''Hello, World'' = Success r
        \<and> cl_primary_style r = ''contested_boundary'' \<and> cl_confidence r = 3 / 10"
proof -
  have "\<forall>entry\<in>set dissolution_terms. \<forall>term\<in>set (snd entry).
          \<not> contains (lower ''Hello, World'') term"
    by (simp add: dissolution_terms_def lower_def lower_char_def)
  then show ?thesis using classify_default [of "''Hello, World''"] by blast
qed

text \<open>
  What the two loops compute: the hint is taken from the last category, in declaration
  order, that has a term in the text.
\<close>

lemma hydrology_inner_eq:
  "hydrology_inner text hid terms cur =
     (if list_ex (contains text) terms then (if hid \<noteq> ''dry'' then hid else ''dry_brush'')
      else cur)"
  by (induction terms) auto

lemma hydrology_fold_last:
  "fold (\<lambda>entry cur. hydrology_inner text (fst entry) (snd entry) cur) cats cur =
     (case filter (\<lambda>entry. list_ex (contains text) (snd entry)) cats of
        [] \<Rightarrow> cur
      | m # ms \<Rightarrow> (if fst (last (m # ms)) \<noteq> ''dry'' then fst (last (m # ms)) else ''dry_brush''))"
proof (induction cats rule: rev_induct)
  case Nil
  then show ?case by simp
next
  case (snoc c cats)
  let ?P = "\<lambda>entry. list_ex (contains text) (snd entry)"
  show ?case
  proof (cases "?P c")
    case True
    then have "filter ?P (cats @ [c]) = filter ?P cats @ [c]" by simp
    moreover obtain m ms where "filter ?P cats @ [c] = m # ms" by (cases "filter ?P cats") auto
    moreover from this have "last (m # ms) = c" by (metis last_snoc)
    ultimately show ?thesis using True by (simp add: hydrology_inner_eq)
  next
    case False
    then have "filter ?P (cats @ [c]) = filter ?P cats" by simp
    then show ?thesis using False snoc by (simp add: hydrology_inner_eq)
  qed
qed

lemma hydrology_match_last_category:
  "hydrology_match_of text =
     (case filter (\<lambda>entry. list_ex (contains text) (snd entry)) hydrology_terms of
        [] \<Rightarrow> ''controlled_wash''
      | m # ms \<Rightarrow> (if fst (last (m # ms)) \<noteq> ''dry'' then fst (last (m # ms)) else ''dry_brush''))"
  unfolding hydrology_match_of_def by (rule hydrology_fold_last)

text \<open>
  Claim C2 says that the first matching hydrology category wins. On the text
  \<^verbatim>\<open>"dry flood"\<close> the category \<^verbatim>\<open>dry\<close> matches first and \<^verbatim>\<open>flooding\<close> matches
  later; the reported hint is \<^verbatim>\<open>"flooding"\<close>: the \<^verbatim>\<open>break\<close> leaves the inner loop
  only, and the later category overwrites the earlier match.
\<close>

theorem hydrology_hint_later_category_overwrites:
  "\<exists>r. classify_dissolution_intent ''dry flood'' = Success r
     \<and> cl_suggested_hydrology r = ''flooding''"
  by (simp add: classify_dissolution_intent_def Let_def lower_def lower_char_def type_scores_of_def
      dissolution_terms_def matches_def primary_and_confidence_def py_max_by_def VISUAL_TYPES_def
      hydrology_match_of_def hydrology_terms_def)

section \<open>Distances between named states\<close>

lemma resolve_editorial_wash: "resolve ''editorial_wash'' = Some editorial_wash_center"
  by (simp add: resolve_def CANONICAL_STATES_def)

lemma resolve_chromatic_flood: "resolve ''chromatic_flood'' = Some chromatic_flood_center"
  by (simp add: resolve_def CANONICAL_STATES_def)

lemma editorial_to_flood_diff:
  "mk_point (\<lambda>k. py_round (coord chromatic_flood_center k - coord editorial_wash_center k) 4)
     = \<lparr>dissolution_rate = 3 / 4, edge_coherence = - (13 / 20), substrate_visibility = 2 / 5,
        pigment_hydrology = 3 / 4, anchor_density = - (3 / 4)\<rparr>"
  by (simp add: mk_point_def chromatic_flood_center_def editorial_wash_center_def py_round_def
      round_half_even_def)

lemma editorial_to_flood:
  "\<exists>r. compute_dissolution_distance ''editorial_wash'' ''chromatic_flood'' = Success r
     \<and> per_axis_difference r =
         \<lparr>dissolution_rate = 3 / 4, edge_coherence = - (13 / 20), substrate_visibility = 2 / 5,
          pigment_hydrology = 3 / 4, anchor_density = - (3 / 4)\<rparr>
     \<and> dominant_axis r = ''dissolution_rate''"
  by (simp add: compute_dissolution_distance_def resolve_editorial_wash resolve_chromatic_flood
      editorial_to_flood_diff py_max_by_def PARAMETER_NAMES_def Let_def)

text \<open>
  Claim C1 says that the dominant axis between \<^verbatim>\<open>editorial_wash\<close> and
  \<^verbatim>\<open>chromatic_flood\<close> is \<^verbatim>\<open>pigment_hydrology\<close>. It is not: three axes have the
  largest absolute difference 0.75, and \<^verbatim>\<open>max\<close> returns the first of them in the
  order of \<^verbatim>\<open>PARAMETER_NAMES\<close>.
\<close>

theorem dominant_axis_not_pigment_hydrology:
  "\<not> (\<exists>r. compute_dissolution_distance ''editorial_wash'' ''chromatic_flood'' = Success r
        \<and> dominant_axis r = ''pigment_hydrology'')"
  using editorial_to_flood by auto

text \<open>
  Claim C1, amended. The call returns the dominant axis \<^verbatim>\<open>dissolution_rate\<close>; the
  axes \<^verbatim>\<open>dissolution_rate\<close>, \<^verbatim>\<open>pigment_hydrology\<close> and \<^verbatim>\<open>anchor_density\<close> tie at
  the absolute difference 0.75.
\<close>

theorem dominant_axis_editorial_to_flood:
  "\<exists>r. compute_dissolution_distance ''editorial_wash'' ''chromatic_flood'' = Success r
     \<and> dominant_axis r = ''dissolution_rate''
     \<and> \<bar>dissolution_rate (per_axis_difference r)\<bar> = 3 / 4
     \<and> \<bar>pigment_hydrology (per_axis_difference r)\<bar> = 3 / 4
     \<and> \<bar>anchor_density (per_axis_difference r)\<bar> = 3 / 4"
  using editorial_to_flood by auto

lemma resolve_nonexistent: "resolve ''nonexistent'' = None"
  by (simp add: resolve_def CANONICAL_STATES_def VISUAL_TYPES_def ATTRACTOR_PRESETS_def)

lemma unknown_first_id:
  assumes "resolve id_1 = None"
  shows "compute_dissolution_distance id_1 id_2 = Failure (ErrorRecord (''Unknown id: '' @ id_1) None)"
    and "compute_dissolution_trajectory id_1 id_2 num_steps
           = Failure (ErrorRecord (''Unknown id: '' @ id_1) None)"
  using assms
  by (simp_all add: compute_dissolution_distance_def compute_dissolution_trajectory_def)

lemma unknown_second_id:
  assumes "resolve id_1 = Some s1" and "resolve id_2 = None"
  shows "compute_dissolution_distance id_1 id_2 = Failure (ErrorRecord (''Unknown id: '' @ id_2) None)"
    and "compute_dissolution_trajectory id_1 id_2 num_steps
           = Failure (ErrorRecord (''Unknown id: '' @ id_2) None)"
  using assms
  by (simp_all add: compute_dissolution_distance_def compute_dissolution_trajectory_def)

text \<open>
  Claim C3 says that the error for an unknown identifier lists the valid identifiers.
  For the identifier \<^verbatim>\<open>"nonexistent"\<close> the distance and the trajectory tools name the
  identifier but return no \<^verbatim>\<open>"valid"\<close> list, which the parameter mapper does return for
  an unknown style.
\<close>

theorem unknown_id_error_without_valid_ids:
  "compute_dissolution_distance ''nonexistent'' ''editorial_wash''
     = Failure (ErrorRecord ''Unknown id: nonexistent'' None)
   \<and> compute_dissolution_trajectory ''nonexistent'' ''editorial_wash'' 20
     = Failure (ErrorRecord ''Unknown id: nonexistent'' None)
   \<and> map_dissolution_parameters ''nonexistent'' ''moderate'' ''balanced'' None
     = Failure (ErrorRecord ''Unknown style: nonexistent''
         (Some [''editorial_wash'', ''contested_boundary'', ''full_dissolution'',
                ''ghost_impression'', ''substrate_emergence'', ''chromatic_flood'']))"
  by (simp add: compute_dissolution_distance_def compute_dissolution_trajectory_def
      resolve_nonexistent map_dissolution_parameters_def VISUAL_TYPES_def)

section \<open>The nearest visual type of a center\<close>

lemma euclidean_distance_unfold:
  "euclidean_distance a b =
     sqrt ((dissolution_rate a - dissolution_rate b)\<^sup>2 + (edge_coherence a - edge_coherence b)\<^sup>2
       + (substrate_visibility a - substrate_visibility b)\<^sup>2
       + (pigment_hydrology a - pigment_hydrology b)\<^sup>2
       + (anchor_density a - anchor_density b)\<^sup>2)"
  by (simp add: euclidean_distance_def PARAMETER_NAMES_def)

lemma euclidean_distance_self: "euclidean_distance a a = 0"
  by (simp add: euclidean_distance_unfold)

lemma euclidean_distance_nonneg: "0 \<le> euclidean_distance a b"
  by (simp add: euclidean_distance_unfold)

lemma contested_far_from_editorial:
  "0 < euclidean_distance contested_boundary_center editorial_wash_center"
  by (simp add: euclidean_distance_unfold contested_boundary_center_def editorial_wash_center_def
      power2_eq_square)

lemma nearest_step_None:
  "nearest_step s e (i, None) = (fst e, Some (euclidean_distance s (center (snd e))))"
  by (simp add: nearest_step_def)

lemma nearest_step_zero: "nearest_step s e (i, Some 0) = (i, Some 0)"
  using euclidean_distance_nonneg [of s "center (snd e)"] by (simp add: nearest_step_def Let_def)

lemma nearest_step_self:
  "0 < b \<Longrightarrow> nearest_step s (i, \<lparr>vt_name = n, center = s\<rparr>) (j, Some b) = (i, Some 0)"
  by (simp add: nearest_step_def euclidean_distance_self)

lemma nearest_contested:
  "nearest_visual_type contested_boundary_center = (''contested_boundary'', Some 0)"
  by (simp add: nearest_visual_type_def VISUAL_TYPES_def nearest_step_None nearest_step_zero
      nearest_step_self contested_far_from_editorial)

lemma round_contested: "round_state contested_boundary_center = contested_boundary_center"
  by (simp add: round_state_def mk_point_def contested_boundary_center_def py_round_def
      round_half_even_def)

text \<open>
  Claim C10. With no custom state and an attractor id found in none of the three
  catalogs, the state is the center of \<^verbatim>\<open>contested_boundary\<close> and each of the three
  modes returns its bundle for that point, not an error.
\<close>

theorem attractor_prompt_fallback:
  assumes "map_of ATTRACTOR_PRESETS attractor_id = None"
    and "map_of VISUAL_TYPES attractor_id = None"
    and "map_of CANONICAL_STATES attractor_id = None"
  shows "attractor_state attractor_id None = Some contested_boundary_center
    \<and> generate_dissolution_attractor_prompt attractor_id None ''composite'' style_modifier
          keyframe_count
        = Success (Composite
            \<lparr>bp_nearest_type = ''contested_boundary'', bp_hydro_desc = HydroWetOnDry,
             bp_edge_desc = EdgeMixed, bp_sub_desc = SubstrateHidden,
             bp_anchor_desc = AnchorScattered, bp_style_modifier = style_modifier\<rparr>
            contested_boundary_center ''contested_boundary'')
    \<and> (\<exists>prompt. generate_dissolution_attractor_prompt attractor_id None ''split_view''
          style_modifier keyframe_count
        = Success (SplitView prompt contested_boundary_center))
    \<and> (\<exists>keyframes. generate_dissolution_attractor_prompt attractor_id None ''sequence''
          style_modifier keyframe_count
        = Success (Sequence keyframe_count keyframes))"
proof -
  have st: "attractor_state attractor_id None = Some contested_boundary_center"
    by (simp add: attractor_state_def assms map_of_contested_boundary)
  have descs: "hydro_desc_of contested_boundary_center = HydroWetOnDry"
    "edge_desc_of contested_boundary_center = EdgeMixed"
    "sub_desc_of contested_boundary_center = SubstrateHidden"
    "anchor_desc_of contested_boundary_center = AnchorScattered"
    by (simp_all add: hydro_desc_of_def edge_desc_of_def sub_desc_of_def anchor_desc_of_def
        contested_boundary_center_def)
  show ?thesis
    by (simp add: generate_dissolution_attractor_prompt_def st nearest_contested
        map_of_contested_boundary map_of_editorial_wash descs round_contested Let_def)
qed

theorem attractor_prompt_fallback_witness:
  "generate_dissolution_attractor_prompt '''' None ''composite'' '''' 4
        = Success (Composite
            \<lparr>bp_nearest_type = ''contested_boundary'', bp_hydro_desc = HydroWetOnDry,
             bp_edge_desc = EdgeMixed, bp_sub_desc = SubstrateHidden,
             bp_anchor_desc = AnchorScattered, bp_style_modifier = ''''\<rparr>
            contested_boundary_center ''contested_boundary'')"
proof -
  have "map_of ATTRACTOR_PRESETS '''' = None" "map_of VISUAL_TYPES '''' = None"
    "map_of CANONICAL_STATES '''' = None"
    by (simp_all add: ATTRACTOR_PRESETS_def VISUAL_TYPES_def CANONICAL_STATES_def)
  from attractor_prompt_fallback [OF this] show ?thesis by blast
qed

section \<open>Softmax\<close>

lemma sum_list_pos:
  fixes xs :: "real list"
  assumes "xs \<noteq> []" and "\<forall>x\<in>set xs. 0 < x"
  shows "0 < sum_list xs"
  using assms by (induction xs) (auto intro: add_pos_nonneg sum_list_nonneg less_imp_le)

lemma sum_list_divide:
  fixes c :: real
  shows "(\<Sum>x\<leftarrow>xs. f x / c) = (\<Sum>x\<leftarrow>xs. f x) / c"
  by (induction xs) (simp_all add: add_divide_distrib)

lemma exp_s_total_pos:
  assumes "scores \<noteq> []"
  shows "0 < sum_list (map snd (exp_s_of scores T))"
  by (rule sum_list_pos) (use assms in \<open>auto simp: exp_s_of_def\<close>)

lemma softmax_nonempty:
  assumes "scores \<noteq> []" and "T \<noteq> 0"
  shows "softmax scores T =
     Success (map (\<lambda>entry. (fst entry, snd entry / sum_list (map snd (exp_s_of scores T))))
                (exp_s_of scores T))"
  using assms exp_s_total_pos [OF assms(1), of T] by (simp add: softmax_def Let_def)

lemma softmax_sum_one:
  assumes "scores \<noteq> []" and "T \<noteq> 0"
  shows "\<exists>w. softmax scores T = Success w \<and> map fst w = map fst scores
     \<and> list_all (\<lambda>e. 0 < snd e) w \<and> sum_list (map snd w) = 1"
proof -
  let ?es = "exp_s_of scores T"
  let ?total = "sum_list (map snd ?es)"
  let ?w = "map (\<lambda>entry. (fst entry, snd entry / ?total)) ?es"
  note pos = exp_s_total_pos [OF assms(1), of T]
  have "map fst ?w = map fst scores" by (simp add: exp_s_of_def comp_def)
  moreover have "list_all (\<lambda>e. 0 < snd e) ?w"
    using pos by (auto simp: exp_s_of_def list_all_iff)
  moreover have "sum_list (map snd ?w) = 1"
    using pos by (simp add: comp_def sum_list_divide)
  ultimately show ?thesis using softmax_nonempty [OF assms] by blast
qed

lemma softmax_uniform:
  assumes "scores \<noteq> []" and "T \<noteq> 0" and "\<forall>e\<in>set scores. snd e = c"
  shows "softmax scores T = Success (map (\<lambda>e. (fst e, 1 / of_nat (length scores))) scores)"
proof -
  from assms(1,3) have "set (map snd scores) = {c}" by (cases scores) auto
  then have mx: "Max (set (map snd scores)) = c" by simp
  have es: "exp_s_of scores T = map (\<lambda>e. (fst e, 1)) scores"
    unfolding exp_s_of_def Let_def
    by (rule map_cong [OF refl]) (use assms(1,3) mx in simp)
  have total: "sum_list (map snd (exp_s_of scores T)) = of_nat (length scores)"
    by (simp add: es comp_def sum_list_triv)
  show ?thesis
    by (simp add: softmax_nonempty [OF assms(1,2)] total) (simp add: es)
qed

lemma softmax_empty: "softmax [] T = Success []"
  by (simp add: softmax_def exp_s_of_def)

text \<open>
  Claim C7. For a positive temperature (the module calls \<^verbatim>\<open>_softmax\<close> with 1.0 and
  0.5): the weights of a non-empty score dictionary have the keys of the scores and sum
  to 1; equal scores give every key the weight \<open>1 / n\<close>; and the empty dictionary gives
  the empty dictionary.
\<close>

theorem softmax_properties:
  "(scores \<noteq> [] \<and> 0 < T \<longrightarrow>
      (\<exists>w. softmax scores T = Success w \<and> map fst w = map fst scores
         \<and> sum_list (map snd w) = 1))
   \<and> (scores \<noteq> [] \<and> 0 < T \<and> (\<forall>e\<in>set scores. snd e = c) \<longrightarrow>
      softmax scores T = Success (map (\<lambda>e. (fst e, 1 / of_nat (length scores))) scores))
   \<and> softmax ([] :: ('k \<times> real) list) T = Success []"
  using softmax_sum_one [of scores T] softmax_uniform [of scores T c] softmax_empty [of T]
  by auto

theorem softmax_properties_witness:
  "softmax [(''a'', 2), (''b'', 2), (''c'', 2 :: real)] (1 / 2)
     = Success [(''a'', 1 / 3), (''b'', 1 / 3), (''c'', 1 / 3)]
   \<and> (\<exists>w. softmax [(''a'', 2), (''b'', 2), (''c'', 2 :: real)] (1 / 2) = Success w
         \<and> sum_list (map snd w) = 1)"
proof -
  have "[(''a'', 2), (''b'', 2), (''c'', 2 :: real)] \<noteq> [] \<and> (0 :: real) < 1 / 2
      \<and> (\<forall>e\<in>set [(''a'', 2), (''b'', 2), (''c'', 2 :: real)]. snd e = 2)"
    by simp
  with softmax_properties [of "[(''a'', 2), (''b'', 2), (''c'', 2)]" "1 / 2" 2]
  show ?thesis by auto
qed

section \<open>Decomposition stays in the bounding box of the centers\<close>

lemma weighted_centers_keys:
  assumes "map fst w = map fst VISUAL_TYPES"
  shows "weighted_centers w
     = Some (zip (map snd w) (map (\<lambda>entry. center (snd entry)) VISUAL_TYPES))"
proof -
  from assms obtain a b c d e f where
    "w = [(''editorial_wash'', a), (''contested_boundary'', b), (''full_dissolution'', c),
          (''ghost_impression'', d), (''substrate_emergence'', e), (''chromatic_flood'', f)]"
    by (auto simp: VISUAL_TYPES_def map_eq_Cons_conv)
  then show ?thesis
    by (simp add: weighted_centers_def VISUAL_TYPES_def)
qed

lemma weighted_sum_bounds:
  fixes lo hi :: real
  assumes "\<forall>wc\<in>set wcs. 0 \<le> fst wc \<and> lo \<le> f (snd wc) \<and> f (snd wc) \<le> hi"
  shows "lo * sum_list (map fst wcs) \<le> (\<Sum>wc\<leftarrow>wcs. fst wc * f (snd wc))
       \<and> (\<Sum>wc\<leftarrow>wcs. fst wc * f (snd wc)) \<le> hi * sum_list (map fst wcs)"
  using assms
proof (induction wcs)
  case Nil
  then show ?case by simp
next
  case (Cons wc wcs)
  from Cons.prems have "fst wc * lo \<le> fst wc * f (snd wc)" "fst wc * f (snd wc) \<le> fst wc * hi"
    by (simp_all add: mult_left_mono)
  with Cons show ?case by (simp add: algebra_simps)
qed

lemma coord_blend: "coord (blend wcs) k = (\<Sum>wc\<leftarrow>wcs. fst wc * coord (snd wc) k)"
  by (cases k) (simp_all add: blend_def mk_point_def)

lemma center_box:
  assumes "c \<in> (\<lambda>entry. center (snd entry)) ` set VISUAL_TYPES"
  shows "center_min k \<le> coord c k \<and> coord c k \<le> center_max k"
  using assms unfolding center_min_def center_max_def
  by (auto intro!: Min_le Max_ge)

lemmas centers_defs = VISUAL_TYPES_def editorial_wash_center_def contested_boundary_center_def
  full_dissolution_center_def ghost_impression_center_def substrate_emergence_center_def
  chromatic_flood_center_def

lemma center_min_values:
  "center_min DissolutionRate = of_int 1500 / 10 ^ 4"
  "center_min EdgeCoherence = of_int 1500 / 10 ^ 4"
  "center_min SubstrateVisibility = of_int 1000 / 10 ^ 4"
  "center_min PigmentHydrology = of_int 1000 / 10 ^ 4"
  "center_min AnchorDensity = of_int 1000 / 10 ^ 4"
  by (simp_all add: center_min_def centers_defs)

lemma center_max_values:
  "center_max DissolutionRate = of_int 9000 / 10 ^ 4"
  "center_max EdgeCoherence = of_int 8500 / 10 ^ 4"
  "center_max SubstrateVisibility = of_int 8500 / 10 ^ 4"
  "center_max PigmentHydrology = of_int 9500 / 10 ^ 4"
  "center_max AnchorDensity = of_int 9000 / 10 ^ 4"
  by (simp_all add: center_max_def centers_defs)

lemma center_min_decimal: "\<exists>n. center_min k = of_int n / 10 ^ 4"
  by (cases k) (use center_min_values in blast)+

lemma center_max_decimal: "\<exists>n. center_max k = of_int n / 10 ^ 4"
  by (cases k) (use center_max_values in blast)+

lemma round_in_box:
  assumes "center_min k \<le> x" and "x \<le> center_max k"
  shows "center_min k \<le> py_round x 4 \<and> py_round x 4 \<le> center_max k"
proof -
  obtain n m where "center_min k = of_int n / 10 ^ 4" "center_max k = of_int m / 10 ^ 4"
    using center_min_decimal center_max_decimal by blast
  with assms show ?thesis
    using py_round_ge [of n 4 x] py_round_le [of x m 4] by simp
qed

lemma decompose_scores_keys: "map fst (decompose_scores text) = map fst VISUAL_TYPES"
  by (simp add: decompose_scores_def comp_def)

lemma blend_in_box:
  assumes "\<forall>wc\<in>set wcs. 0 < fst wc"
    and "sum_list (map fst wcs) = 1"
    and "\<forall>wc\<in>set wcs. snd wc \<in> (\<lambda>entry. center (snd entry)) ` set VISUAL_TYPES"
  shows "center_min k \<le> coord (blend wcs) k \<and> coord (blend wcs) k \<le> center_max k"
proof -
  have "\<forall>wc\<in>set wcs. 0 \<le> fst wc \<and> center_min k \<le> coord (snd wc) k
          \<and> coord (snd wc) k \<le> center_max k"
    using assms(1,3) center_box by (auto intro: less_imp_le)
  from weighted_sum_bounds [OF this] show ?thesis
    by (simp add: coord_blend assms(2))
qed

text \<open>
  Claim C9. Every description is decomposed successfully; the returned coordinates are
  the rounding to 4 decimals of a convex combination of the six centers (positive
  weights that sum to 1, in the order of \<^verbatim>\<open>VISUAL_TYPES\<close>), and each of them lies
  between the least and the greatest value of that coordinate over the six centers.
\<close>

theorem decompose_in_bounding_box:
  "\<exists>r wcs. decompose_dissolution_from_description description = Success r
     \<and> dc_coordinates r = round_state (blend wcs)
     \<and> map snd wcs = map (\<lambda>entry. center (snd entry)) VISUAL_TYPES
     \<and> list_all (\<lambda>wc. 0 < fst wc) wcs \<and> sum_list (map fst wcs) = 1
     \<and> (\<forall>k. center_min k \<le> coord (dc_coordinates r) k
            \<and> coord (dc_coordinates r) k \<le> center_max k)"
proof -
  let ?text = "lower description"
  let ?scores = "decompose_scores ?text"
  have ne: "?scores \<noteq> []" by (simp add: decompose_scores_def VISUAL_TYPES_def)
  from softmax_sum_one [OF ne, of 1] obtain w where w: "softmax ?scores 1 = Success w"
    "map fst w = map fst ?scores" "list_all (\<lambda>e. 0 < snd e) w" "sum_list (map snd w) = 1"
    by auto
  have keys: "map fst w = map fst VISUAL_TYPES" by (simp add: w(2) decompose_scores_keys)
  define wcs where "wcs = zip (map snd w) (map (\<lambda>entry. center (snd entry)) VISUAL_TYPES)"
  have len: "length (map snd w) = length (map (\<lambda>entry. center (snd entry)) VISUAL_TYPES)"
    using arg_cong [OF keys, of length] by simp
  have wcs: "weighted_centers w = Some wcs" "map fst wcs = map snd w"
    "map snd wcs = map (\<lambda>entry. center (snd entry)) VISUAL_TYPES"
    unfolding wcs_def using weighted_centers_keys [OF keys] len by simp_all
  have mem: "\<forall>wc\<in>set wcs. snd wc \<in> (\<lambda>entry. center (snd entry)) ` set VISUAL_TYPES"
  proof
    fix wc assume "wc \<in> set wcs"
    then have "snd wc \<in> set (map snd wcs)" by simp
    then show "snd wc \<in> (\<lambda>entry. center (snd entry)) ` set VISUAL_TYPES"
      by (simp add: wcs(3))
  qed
  have pos: "\<forall>wc\<in>set wcs. 0 < fst wc"
  proof
    fix wc assume "wc \<in> set wcs"
    then have "fst wc \<in> set (map snd w)" using wcs(2) by (metis image_eqI list.set_map)
    then show "0 < fst wc" using w(3) by (auto simp: list_all_iff)
  qed
  have sum1: "sum_list (map fst wcs) = 1" by (simp add: wcs(2) w(4))
  note cs = wcs(3)
  have box: "center_min k \<le> coord (round_state (blend wcs)) k
      \<and> coord (round_state (blend wcs)) k \<le> center_max k" for k
    using blend_in_box [OF pos sum1 mem, of k] by (simp add: coord_round_state round_in_box)
  have "decompose_dissolution_from_description description
      = Success \<lparr>dc_coordinates = round_state (blend wcs),
          dc_confidence = py_round (min 1 (sum_list (map snd ?scores) / 8)) 4,
          dc_nearest_type = fst (nearest_visual_type (blend wcs)),
          dc_nearest_type_distance = map_option (\<lambda>d. py_round d 4) (snd (nearest_visual_type (blend wcs))),
          dc_type_scores = map (\<lambda>entry. (fst entry, py_round (snd entry) 2)) ?scores,
          dc_type_weights = map (\<lambda>entry. (fst entry, py_round (snd entry) 4)) w,
          dc_detected = (sum_list (map snd ?scores) > 0)\<rparr>"
    by (simp add: decompose_dissolution_from_description_def Let_def w(1) wcs(1))
  with box cs pos sum1 show ?thesis by (auto simp: list_all_iff)
qed

section \<open>Rounding errors of binary64\<close>

lemma round_half_even_error: "\<bar>of_int (round_half_even y) - y\<bar> \<le> 1 / 2"
proof -
  have "of_int \<lfloor>y\<rfloor> \<le> y" "y < of_int \<lfloor>y\<rfloor> + 1" by linarith+
  then show ?thesis by (auto simp: round_half_even_def Let_def)
qed

lemma round_half_even_near:
  assumes "\<bar>y - of_int m\<bar> < 1 / 2"
  shows "round_half_even y = m"
proof -
  have "\<bar>of_int (round_half_even y) - y\<bar> \<le> 1 / 2" by (rule round_half_even_error)
  with assms have "\<bar>(of_int (round_half_even y) :: real) - of_int m\<bar> < 1" by linarith
  then have "\<bar>(of_int (round_half_even y - m) :: real)\<bar> < 1" by simp
  then have "\<bar>round_half_even y - m\<bar> < 1" by (simp only: of_int_abs [symmetric] of_int_less_1_iff)
  then show ?thesis by simp
qed

lemma pow2_pos: "0 < pow2 e"
  by (simp add: pow2_def)

lemma pow2_mono:
  assumes "e \<le> e'"
  shows "pow2 e \<le> pow2 e'"
proof -
  have "pow2 e = 2 powi e" for e
    by (simp add: pow2_def power_int_def field_simps)
  then show ?thesis using assms by (simp add: power_int_increasing)
qed

lemma pow2_succ: "pow2 (e + 1) = 2 * pow2 e"
proof -
  have "pow2 e = 2 powi e" for e
    by (simp add: pow2_def power_int_def field_simps)
  then show ?thesis by (simp add: power_int_add)
qed

lemma expo_bounds: "0 < x \<Longrightarrow> pow2 (expo x) \<le> x \<and> x < pow2 (expo x + 1)"
proof (induction x rule: expo.induct)
  case (1 x)
  show ?case
  proof (cases "x < 1")
    case True
    with 1 have ih: "pow2 (expo (2 * x)) \<le> 2 * x \<and> 2 * x < pow2 (expo (2 * x) + 1)" by simp
    have e: "expo x = expo (2 * x) - 1" using True 1(3) by (simp add: expo.simps [of x])
    from ih pow2_succ [of "expo (2 * x) - 1"] pow2_succ [of "expo (2 * x)"] show ?thesis
      by (simp add: e)
  next
    case False
    show ?thesis
    proof (cases "2 \<le> x")
      case True
      with 1 False have ih: "pow2 (expo (x / 2)) \<le> x / 2 \<and> x / 2 < pow2 (expo (x / 2) + 1)" by simp
      have e: "expo x = expo (x / 2) + 1" using True False 1(3) by (simp add: expo.simps [of x])
      from ih pow2_succ [of "expo (x / 2) + 1"] pow2_succ [of "expo (x / 2)"] show ?thesis
        by (simp add: e)
    next
      case F2: False
      then have "expo x = 0" using False 1(3) by (simp add: expo.simps [of x])
      with False F2 show ?thesis by (simp add: pow2_def)
    qed
  qed
qed

lemma expo_small: "x < 2 \<Longrightarrow> expo x \<le> 0"
proof (induction x rule: expo.induct)
  case (1 x)
  show ?case
  proof (cases "x \<le> 0 \<or> \<not> x < 1")
    case True
    with 1(3) show ?thesis by (auto simp: expo.simps [of x])
  next
    case False
    with 1 have "expo (2 * x) \<le> 0" by simp
    then show ?thesis using False by (simp add: expo.simps [of x])
  qed
qed

lemma fl_error_small:
  assumes "\<bar>x\<bar> < 2"
  shows "\<bar>fl x - x\<bar> \<le> 1 / 2 ^ 53"
proof (cases "x = 0")
  case True
  then show ?thesis by (simp add: fl_def)
next
  case False
  define u where "u = pow2 (max (expo \<bar>x\<bar>) (- 1022) - 52)"
  have upos: "0 < u" by (simp add: u_def pow2_pos)
  have "max (expo \<bar>x\<bar>) (- 1022) - 52 \<le> - 52" using expo_small [OF assms] by simp
  from pow2_mono [OF this] have ule: "u \<le> 1 / 2 ^ 52" by (simp add: u_def pow2_def)
  have flx: "fl x = of_int (round_half_even (x / u)) * u"
    using False by (simp add: fl_def Let_def u_def)
  have "fl x - x = (of_int (round_half_even (x / u)) - x / u) * u"
    using upos by (simp add: flx field_simps)
  then have "\<bar>fl x - x\<bar> = \<bar>of_int (round_half_even (x / u)) - x / u\<bar> * u"
    using upos by (simp add: abs_mult)
  also have "\<dots> \<le> 1 / 2 * u"
    using round_half_even_error [of "x / u"] upos by (simp add: mult_right_mono)
  also have "\<dots> \<le> 1 / 2 ^ 53" using ule by simp
  finally show ?thesis .
qed

lemma fl_error_eps:
  assumes "\<bar>x\<bar> < 2"
  shows "\<bar>fl x - x\<bar> \<le> 1 / 1000000000"
proof -
  have "(1 :: real) / 2 ^ 53 \<le> 1 / 1000000000" by simp
  with fl_error_small [OF assms] show ?thesis by linarith
qed

lemma scaled_near:
  fixes s y c :: real
  assumes "\<bar>s - y\<bar> \<le> c" and "c * 10000 < 1 / 2"
  shows "\<bar>s * 10 ^ 4 - y * 10 ^ 4\<bar> < 1 / 2"
proof -
  have eq: "s * 10 ^ 4 - y * 10 ^ 4 = (s - y) * 10000" by (simp add: algebra_simps)
  have "\<bar>(s - y) * 10000\<bar> = \<bar>s - y\<bar> * \<bar>10000\<bar>" by (rule abs_mult)
  also have "\<dots> = \<bar>s - y\<bar> * 10000" by simp
  also have "\<dots> \<le> c * 10000" using assms(1) by (rule mult_right_mono) simp
  also have "\<dots> < 1 / 2" by (rule assms(2))
  finally show ?thesis unfolding eq .
qed

lemma b64_endpoint:
  assumes x: "0 \<le> x" "x \<le> 1" and y: "0 \<le> y" "y \<le> 1" and m: "y = of_int m / 10 ^ 4"
  shows "py_round_b64 (b64_add (fl x) (b64_mul 1 (b64_sub (fl y) (fl x)))) 4 = fl y"
proof -
  define a where "a = fl x"
  define b where "b = fl y"
  define d where "d = fl (b - a)"
  define p where "p = fl d"
  define s where "s = fl (a + p)"
  have ea: "\<bar>a - x\<bar> \<le> 1 / 1000000000" unfolding a_def by (rule fl_error_eps) (use x in simp)
  have eb: "\<bar>b - y\<bar> \<le> 1 / 1000000000" unfolding b_def by (rule fl_error_eps) (use y in simp)
  have ed: "\<bar>d - (b - a)\<bar> \<le> 1 / 1000000000" unfolding d_def
    by (rule fl_error_eps) (use ea eb x y in linarith)
  have ep: "\<bar>p - d\<bar> \<le> 1 / 1000000000" unfolding p_def
    by (rule fl_error_eps) (use ea eb ed x y in linarith)
  have es: "\<bar>s - (a + p)\<bar> \<le> 1 / 1000000000" unfolding s_def
    by (rule fl_error_eps) (use ea eb ed ep x y in linarith)
  have "\<bar>s - y\<bar> \<le> 4 / 1000000000" using ea eb ed ep es by linarith
  then have "\<bar>s * 10 ^ 4 - y * 10 ^ 4\<bar> < 1 / 2" by (rule scaled_near) simp
  moreover have "y * 10 ^ 4 = of_int m" by (simp add: m)
  ultimately have "\<bar>s * 10 ^ 4 - of_int m\<bar> < 1 / 2" by simp
  then have "round_half_even (s * 10 ^ 4) = m" by (rule round_half_even_near)
  then have "py_round_b64 s 4 = fl y" by (simp add: py_round_b64_def m)
  then show ?thesis
    by (simp add: s_def p_def d_def a_def b_def b64_add_def b64_mul_def b64_sub_def)
qed

lemma b64_startpoint:
  assumes x: "0 \<le> x" "x \<le> 1" and n: "x = of_int n / 10 ^ 4"
  shows "py_round_b64 (b64_add (fl x) (b64_mul 0 z)) 4 = fl x"
proof -
  define a where "a = fl x"
  define s where "s = fl a"
  have f0: "fl 0 = 0" by (simp add: fl_def)
  have ea: "\<bar>a - x\<bar> \<le> 1 / 1000000000" unfolding a_def by (rule fl_error_eps) (use x in simp)
  have es: "\<bar>s - a\<bar> \<le> 1 / 1000000000" unfolding s_def
    by (rule fl_error_eps) (use ea x in linarith)
  have "\<bar>s - x\<bar> \<le> 2 / 1000000000" using ea es by linarith
  then have "\<bar>s * 10 ^ 4 - x * 10 ^ 4\<bar> < 1 / 2" by (rule scaled_near) simp
  moreover have "x * 10 ^ 4 = of_int n" by (simp add: n)
  ultimately have "\<bar>s * 10 ^ 4 - of_int n\<bar> < 1 / 2" by simp
  then have "round_half_even (s * 10 ^ 4) = n" by (rule round_half_even_near)
  then have "py_round_b64 s 4 = fl x" by (simp add: py_round_b64_def n)
  then show ?thesis
    by (simp add: s_def a_def b64_add_def b64_mul_def f0)
qed


section \<open>Interpolation and trajectory endpoints\<close>

lemma point_eqI:
  assumes "\<And>k. coord p k = coord q k"
  shows "p = q"
  using assms [of DissolutionRate] assms [of EdgeCoherence] assms [of SubstrateVisibility]
    assms [of PigmentHydrology] assms [of AnchorDensity]
  by simp

lemma coord_mk_point: "coord (mk_point f) k = f k"
  by (cases k) (simp_all add: mk_point_def)

lemmas catalog_points_defs =
  editorial_wash_center_def contested_boundary_center_def full_dissolution_center_def
  ghost_impression_center_def substrate_emergence_center_def chromatic_flood_center_def
  light_wash_coordinates_def advancing_dissolution_coordinates_def
  saturating_flood_coordinates_def restrained_study_coordinates_def

lemma resolve_cases:
  assumes "resolve sid = Some p"
  shows "p \<in> {editorial_wash_center, contested_boundary_center, full_dissolution_center,
      ghost_impression_center, substrate_emergence_center, chromatic_flood_center,
      light_wash_coordinates, advancing_dissolution_coordinates,
      saturating_flood_coordinates, restrained_study_coordinates}"
proof (cases "map_of CANONICAL_STATES sid")
  case (Some cs)
  then have "(sid, cs) \<in> set CANONICAL_STATES" by (rule map_of_SomeD)
  moreover have "p = coordinates cs" using assms Some by (simp add: resolve_def)
  ultimately show ?thesis by (auto simp: CANONICAL_STATES_def)
next
  case None
  show ?thesis
  proof (cases "map_of VISUAL_TYPES sid")
    case (Some vt)
    then have "(sid, vt) \<in> set VISUAL_TYPES" by (rule map_of_SomeD)
    moreover have "p = center vt" using assms None Some by (simp add: resolve_def)
    ultimately show ?thesis by (auto simp: VISUAL_TYPES_def)
  next
    case N2: None
    then obtain ap where ap: "map_of ATTRACTOR_PRESETS sid = Some ap" "p = ap_state ap"
      using assms None by (auto simp: resolve_def split: option.splits)
    then have "(sid, ap) \<in> set ATTRACTOR_PRESETS" using map_of_SomeD by fast
    with ap(2) show ?thesis by (auto simp: ATTRACTOR_PRESETS_def)
  qed
qed

lemma resolve_decimal:
  assumes "resolve sid = Some p"
  shows "0 \<le> coord p k \<and> coord p k \<le> 1 \<and> py_round (coord p k) 4 = coord p k"
  using resolve_cases [OF assms]
  by (cases k) (auto simp: catalog_points_defs py_round_def round_half_even_def)


lemma decimal_as_fraction:
  assumes "py_round x 4 = x"
  shows "x = of_int (round_half_even (x * 10 ^ 4)) / 10 ^ 4"
  using assms by (simp add: py_round_def)

lemma fl_one: "fl 1 = 1"
  by (simp add: fl_def expo.simps pow2_def round_half_even_def Let_def)

lemma fl_zero: "fl 0 = 0"
  by (simp add: fl_def)

lemma lerp_state_zero: "lerp_state a b 0 = a"
  by (simp add: lerp_state_def mk_point_def)

lemma lerp_state_one: "lerp_state a b 1 = b"
  by (simp add: lerp_state_def mk_point_def)

lemma lerp_state_b64_zero:
  assumes "\<And>k. fl (coord a k) = coord a k"
  shows "lerp_state_b64 a b 0 = a"
  by (rule point_eqI)
    (simp add: lerp_state_b64_def coord_mk_point b64_add_def b64_mul_def fl_zero assms)

lemma trajectory_state_b64_first:
  assumes "resolve start_id = Some start"
  shows "trajectory_state_b64 (b64_point start) (b64_point end) num_steps 0 = b64_point start"
proof (rule point_eqI)
  fix k
  note d = resolve_decimal [OF assms, of k]
  have "py_round_b64 (b64_add (fl (coord start k))
          (b64_mul 0 (b64_sub (fl (coord end k)) (fl (coord start k))))) 4 = fl (coord start k)"
    by (rule b64_startpoint [OF _ _ decimal_as_fraction]) (use d in simp_all)
  then show "coord (trajectory_state_b64 (b64_point start) (b64_point end) num_steps 0) k
      = coord (b64_point start) k"
    by (simp add: trajectory_state_b64_def round_state_b64_def lerp_state_b64_def b64_point_def
        coord_mk_point b64_div_def fl_zero)
qed

lemma trajectory_state_b64_last:
  assumes "resolve start_id = Some start" and "resolve end_id = Some end" and "1 \<le> num_steps"
  shows "trajectory_state_b64 (b64_point start) (b64_point end) num_steps (nat num_steps)
     = b64_point end"
proof (rule point_eqI)
  fix k
  note ds = resolve_decimal [OF assms(1), of k]
  note de = resolve_decimal [OF assms(2), of k]
  have t: "b64_div (of_nat (nat num_steps)) (of_int num_steps) = 1"
    using assms(3) by (simp add: b64_div_def fl_one)
  have "py_round_b64 (b64_add (fl (coord start k))
          (b64_mul 1 (b64_sub (fl (coord end k)) (fl (coord start k))))) 4 = fl (coord end k)"
    by (rule b64_endpoint [OF _ _ _ _ decimal_as_fraction]) (use ds de in simp_all)
  then show "coord (trajectory_state_b64 (b64_point start) (b64_point end) num_steps
        (nat num_steps)) k = coord (b64_point end) k"
    by (simp add: trajectory_state_b64_def round_state_b64_def lerp_state_b64_def b64_point_def
        coord_mk_point t)
qed

lemma trajectory_b64_endpoints:
  assumes "resolve start_id = Some start" and "resolve end_id = Some end" and "1 \<le> num_steps"
  shows "\<exists>states. compute_dissolution_trajectory_b64 start_id end_id num_steps = Success states
     \<and> length states = nat num_steps + 1
     \<and> states ! 0 = b64_point start \<and> states ! nat num_steps = b64_point end"
proof -
  let ?f = "trajectory_state_b64 (b64_point start) (b64_point end) num_steps"
  let ?states = "map ?f [0 ..< nat (num_steps + 1)]"
  have n: "nat (num_steps + 1) = nat num_steps + 1" using assms(3) by simp
  have "compute_dissolution_trajectory_b64 start_id end_id num_steps = Success ?states"
    using assms by (simp add: compute_dissolution_trajectory_b64_def)
  moreover have "length ?states = nat num_steps + 1" by (simp add: n)
  moreover have "?states ! 0 = ?f 0" unfolding n by (simp del: upt_Suc)
  moreover have "?states ! nat num_steps = ?f (nat num_steps)" unfolding n by (simp del: upt_Suc)
  ultimately show ?thesis
    using trajectory_state_b64_first [OF assms(1)] trajectory_state_b64_last [OF assms]
    by simp
qed

lemma round_state_resolved:
  assumes "resolve sid = Some p"
  shows "round_state p = p"
  by (rule point_eqI) (simp add: coord_round_state resolve_decimal [OF assms])

lemma trajectory_real_endpoints:
  assumes "resolve start_id = Some start" and "resolve end_id = Some end" and "1 \<le> num_steps"
  shows "\<exists>r. compute_dissolution_trajectory start_id end_id num_steps = Success r
     \<and> length (tr_trajectory r) = nat num_steps + 1
     \<and> ts_state (tr_trajectory r ! 0) = start
     \<and> ts_state (tr_trajectory r ! nat num_steps) = end"
proof -
  let ?f = "trajectory_step_at start end num_steps"
  let ?steps = "map ?f [0 ..< nat (num_steps + 1)]"
  have n: "nat (num_steps + 1) = nat num_steps + 1" using assms(3) by simp
  have "?steps ! 0 = ?f 0" unfolding n by (simp del: upt_Suc)
  moreover have "?steps ! nat num_steps = ?f (nat num_steps)" unfolding n by (simp del: upt_Suc)
  moreover have "ts_state (?f 0) = start"
    by (simp add: trajectory_step_at_def Let_def lerp_state_zero round_state_resolved [OF assms(1)])
  moreover have "ts_state (?f (nat num_steps)) = end"
    using assms(3)
    by (simp add: trajectory_step_at_def Let_def lerp_state_one round_state_resolved [OF assms(2)])
  ultimately show ?thesis using assms
    by (simp add: compute_dissolution_trajectory_def n)
qed

lemma b64_edge_editorial_to_full:
  "edge_coherence (lerp_state_b64 (b64_point editorial_wash_center)
      (b64_point full_dissolution_center) 1) = 1351079888211149 / 9007199254740992"
  "edge_coherence (b64_point full_dissolution_center) = 5404319552844595 / 36028797018963968"
  by (simp_all add: lerp_state_b64_def b64_point_def mk_point_def editorial_wash_center_def
      full_dissolution_center_def b64_add_def b64_mul_def b64_sub_def fl_def expo.simps pow2_def
      round_half_even_def Let_def)

text \<open>
  Claim C6 says that interpolation at \<open>t = 1\<close> returns \<open>b\<close> exactly, for all points.
  In binary64 it does not: from the center of \<^verbatim>\<open>editorial_wash\<close> to the center of
  \<^verbatim>\<open>full_dissolution\<close> the \<^verbatim>\<open>edge_coherence\<close> computed at \<open>t = 1\<close> is
  \<^verbatim>\<open>0.85 + 1.0 * (0.15 - 0.85) = 0.15000000000000002\<close>, one unit in the last place above
  the float \<^verbatim>\<open>0.15\<close>.
\<close>

theorem lerp_b64_at_one_not_exact:
  "lerp_state_b64 (b64_point editorial_wash_center) (b64_point full_dissolution_center) 1
     \<noteq> b64_point full_dissolution_center"
proof
  assume "lerp_state_b64 (b64_point editorial_wash_center) (b64_point full_dissolution_center) 1
     = b64_point full_dissolution_center"
  then have "edge_coherence (lerp_state_b64 (b64_point editorial_wash_center)
      (b64_point full_dissolution_center) 1) = edge_coherence (b64_point full_dissolution_center)"
    by simp
  then show False by (simp add: b64_edge_editorial_to_full)
qed

text \<open>
  Claim C6, amended. Over the reals interpolation returns \<open>a\<close> at \<open>t = 0\<close> and \<open>b\<close> at
  \<open>t = 1\<close>. In binary64 it returns \<open>a\<close> exactly at \<open>t = 0\<close>, for all points \<open>a\<close> and
  \<open>b\<close> of the parameter space \<open>[0, 1]\<^sup>5\<close> with \<open>a\<close> a point of floats. For resolvable
  ids and \<open>N \<ge> 1\<close> the trajectory, which rounds every coordinate to 4 decimals, has
  \<open>N + 1\<close> steps; its state at step 0 is exactly the resolved start point and its state
  at step \<open>N\<close> exactly the resolved end point, in binary64 and over the reals.
\<close>

theorem interpolation_endpoints:
  "lerp_state a b 0 = a \<and> lerp_state a b 1 = b
   \<and> ((\<forall>k. fl (coord a k) = coord a k \<and> 0 \<le> coord a k \<and> coord a k \<le> 1
            \<and> 0 \<le> coord b k \<and> coord b k \<le> 1)
        \<longrightarrow> lerp_state_b64 a b 0 = a)
   \<and> (resolve start_id = Some start \<and> resolve end_id = Some end \<and> 1 \<le> num_steps \<longrightarrow>
        (\<exists>states. compute_dissolution_trajectory_b64 start_id end_id num_steps = Success states
           \<and> length states = nat num_steps + 1
           \<and> states ! 0 = b64_point start \<and> states ! nat num_steps = b64_point end)
        \<and> (\<exists>r. compute_dissolution_trajectory start_id end_id num_steps = Success r
           \<and> length (tr_trajectory r) = nat num_steps + 1
           \<and> ts_state (tr_trajectory r ! 0) = start
           \<and> ts_state (tr_trajectory r ! nat num_steps) = end))"
  using lerp_state_zero [of a b] lerp_state_one [of a b] lerp_state_b64_zero [of a b]
    trajectory_b64_endpoints [of start_id start end_id "end" num_steps]
    trajectory_real_endpoints [of start_id start end_id "end" num_steps]
  by blast

lemma b64_editorial_wash_floats:
  "fl (coord (b64_point editorial_wash_center) k) = coord (b64_point editorial_wash_center) k
   \<and> 0 \<le> coord (b64_point editorial_wash_center) k
   \<and> coord (b64_point editorial_wash_center) k \<le> 1"
  by (cases k)
    (simp_all add: b64_point_def mk_point_def editorial_wash_center_def fl_def expo.simps pow2_def
      round_half_even_def Let_def)

lemma b64_full_dissolution_in_unit_box:
  "0 \<le> coord (b64_point full_dissolution_center) k
   \<and> coord (b64_point full_dissolution_center) k \<le> 1"
  by (cases k)
    (simp_all add: b64_point_def mk_point_def full_dissolution_center_def fl_def expo.simps
      pow2_def round_half_even_def Let_def)

theorem interpolation_endpoints_witness:
  "lerp_state_b64 (b64_point editorial_wash_center) (b64_point full_dissolution_center) 0
     = b64_point editorial_wash_center
   \<and> (\<exists>states. compute_dissolution_trajectory_b64 ''editorial_wash'' ''full_dissolution'' 20
          = Success states
        \<and> length states = 21
        \<and> states ! 0 = b64_point editorial_wash_center
        \<and> states ! 20 = b64_point full_dissolution_center)"
proof -
  have r: "resolve ''editorial_wash'' = Some editorial_wash_center"
    "resolve ''full_dissolution'' = Some full_dissolution_center"
    by (simp_all add: resolve_def CANONICAL_STATES_def)
  have "\<forall>k. fl (coord (b64_point editorial_wash_center) k)
          = coord (b64_point editorial_wash_center) k
        \<and> 0 \<le> coord (b64_point editorial_wash_center) k
        \<and> coord (b64_point editorial_wash_center) k \<le> 1
        \<and> 0 \<le> coord (b64_point full_dissolution_center) k
        \<and> coord (b64_point full_dissolution_center) k \<le> 1"
    using b64_editorial_wash_floats b64_full_dissolution_in_unit_box by blast
  with r interpolation_endpoints [of "b64_point editorial_wash_center"
      "b64_point full_dissolution_center" "''editorial_wash''" editorial_wash_center
      "''full_dissolution''" full_dissolution_center 20]
  show ?thesis by simp
qed

end
